theory Spec2Isabelle
  imports Complex_Main "HOL-Library.Multiset"
begin

section \<open>Strings as the program has them\<close>

text \<open>
  A Python \<open>str\<close> is a sequence of code points. The model is a \<open>char list\<close> whose
  characters are read as the code points U+0000 to U+00FF; every literal of the
  source (patterns, table keys, canned texts) is ASCII.
\<close>

definition code :: "char \<Rightarrow> int" where
  "code c = of_char c"

text \<open>\<open>str.isspace\<close> on one character, which is also what \<open>\s\<close> matches.\<close>

definition isspace :: "char \<Rightarrow> bool" where
  "isspace c = (let n = code c in (9 \<le> n \<and> n \<le> 13) \<or> (28 \<le> n \<and> n \<le> 32) \<or> n = 133 \<or> n = 160)"

definition ascii_lower :: "char \<Rightarrow> char" where
  "ascii_lower c = (let n = code c in if 65 \<le> n \<and> n \<le> 90 then char_of (n + 32) else c)"

definition ascii_upper :: "char \<Rightarrow> char" where
  "ascii_upper c = (let n = code c in if 97 \<le> n \<and> n \<le> 122 then char_of (n - 32) else c)"

text \<open>\<open>str.lower\<close>: ASCII capitals and the capitals of the Latin-1 block.\<close>

definition lower_char :: "char \<Rightarrow> char" where
  "lower_char c = (let n = code c in
     if (65 \<le> n \<and> n \<le> 90) \<or> (192 \<le> n \<and> n \<le> 222 \<and> n \<noteq> 215) then char_of (n + 32) else c)"

definition lower :: "string \<Rightarrow> string" where
  "lower s = map lower_char s"

text \<open>\<open>str.strip()\<close>\<close>

definition strip :: "string \<Rightarrow> string" where
  "strip s = rev (dropWhile isspace (rev (dropWhile isspace s)))"

text \<open>\<open>str.split(sep)\<close> for a separator of one character.\<close>

fun split :: "char \<Rightarrow> string \<Rightarrow> string list" where
  "split sep [] = [[]]"
| "split sep (c # cs) =
     (if c = sep then [] # split sep cs
      else (case split sep cs of [] \<Rightarrow> [[c]] | p # ps \<Rightarrow> (c # p) # ps))"

text \<open>\<open>a in b\<close> on strings, \<open>str.startswith\<close>, \<open>str.endswith\<close>, \<open>sep.join\<close>.\<close>

fun startswith :: "string \<Rightarrow> string \<Rightarrow> bool" where
  "startswith s [] = True"
| "startswith [] (p # ps) = False"
| "startswith (c # cs) (p # ps) = (c = p \<and> startswith cs ps)"

definition endswith :: "string \<Rightarrow> string \<Rightarrow> bool" where
  "endswith s p = startswith (rev s) (rev p)"

fun str_in :: "string \<Rightarrow> string \<Rightarrow> bool" where
  "str_in a [] = (a = [])"
| "str_in a (c # cs) = (startswith (c # cs) a \<or> str_in a cs)"

fun join :: "string \<Rightarrow> string list \<Rightarrow> string" where
  "join sep [] = []"
| "join sep [x] = x"
| "join sep (x # y # ys) = x @ sep @ join sep (y # ys)"

text \<open>\<open>int(s)\<close> on a string of ASCII digits, and \<open>str(n)\<close>.\<close>

definition int_of_digits :: "string \<Rightarrow> int" where
  "int_of_digits s = foldl (\<lambda>a c. 10 * a + (code c - 48)) 0 s"

fun str_of_nat :: "nat \<Rightarrow> string" where
  "str_of_nat n = (if n < 10 then [char_of (48 + n)] else str_of_nat (n div 10) @ [char_of (48 + n mod 10)])"

declare str_of_nat.simps [simp del]

definition str_of_int :: "int \<Rightarrow> string" where
  "str_of_int i = (if i < 0 then CHR ''-'' # str_of_nat (nat (- i)) else str_of_nat (nat i))"

section \<open>The regular expressions of the \<open>re\<close> module\<close>

text \<open>
  The patterns of the program are values of \<open>regex\<close>. A class is a list of inclusive
  ranges. \<open>Star\<close>, \<open>Plus\<close> and \<open>Opt\<close> are the greedy \<open>*\<close>, \<open>+\<close> and \<open>?\<close>;
  \<open>StarL\<close> and \<open>PlusL\<close> are the lazy \<open>*?\<close> and \<open>+?\<close>. \<open>Grp n r\<close> is the capturing
  group number \<open>n\<close>; a group \<open>(?:...)\<close> that captures nothing is its content.
\<close>

datatype regex =
    Lit char
  | Cls "(char \<times> char) list"
  | NCls "(char \<times> char) list"
  | Dot
  | Eps
  | Bol
  | Eol
  | Wordb
  | Seq regex regex
  | Alt regex regex
  | Opt regex
  | Star regex
  | Plus regex
  | StarL regex
  | PlusL regex
  | Grp nat regex

definition in_ranges :: "(char \<times> char) list \<Rightarrow> char \<Rightarrow> bool" where
  "in_ranges rs c = list_ex (\<lambda>(lo, hi). code lo \<le> code c \<and> code c \<le> code hi) rs"

text \<open>
  With \<open>re.IGNORECASE\<close> (the flag \<open>ic\<close>) a character matches a literal or a class
  when one of its case variants does.
\<close>

definition lit_match :: "bool \<Rightarrow> char \<Rightarrow> char \<Rightarrow> bool" where
  "lit_match ic p c = (c = p \<or> (ic \<and> ascii_lower c = ascii_lower p))"

definition cls_match :: "bool \<Rightarrow> (char \<times> char) list \<Rightarrow> char \<Rightarrow> bool" where
  "cls_match ic rs c =
     (in_ranges rs c \<or> (ic \<and> (in_ranges rs (ascii_lower c) \<or> in_ranges rs (ascii_upper c))))"

text \<open>The classes \<open>\s\<close>, \<open>\d\<close>, \<open>\w\<close> and \<open>[A-Za-z]\<close> on the code points of the model.\<close>

definition cs_space :: "(char \<times> char) list" where
  "cs_space = [(CHR 0x09, CHR 0x0D), (CHR 0x1C, CHR 0x20), (CHR 0x85, CHR 0x85), (CHR 0xA0, CHR 0xA0)]"

definition cs_digit :: "(char \<times> char) list" where
  "cs_digit = [(CHR ''0'', CHR ''9'')]"

definition cs_alpha :: "(char \<times> char) list" where
  "cs_alpha = [(CHR ''A'', CHR ''Z''), (CHR ''a'', CHR ''z'')]"

definition cs_word :: "(char \<times> char) list" where
  "cs_word = [(CHR ''0'', CHR ''9''), (CHR ''A'', CHR ''Z''), (CHR ''_'', CHR ''_''), (CHR ''a'', CHR ''z''),
     (CHR 0xAA, CHR 0xAA), (CHR 0xB2, CHR 0xB3), (CHR 0xB5, CHR 0xB5), (CHR 0xB9, CHR 0xBA),
     (CHR 0xBC, CHR 0xBE), (CHR 0xC0, CHR 0xD6), (CHR 0xD8, CHR 0xF6), (CHR 0xF8, CHR 0xFF)]"

text \<open>
  A matching state is the position reached in the subject and the groups captured so
  far. \<open>ms ic s r st\<close> lists every state in which \<open>r\<close> can end when it starts in \<open>st\<close>,
  in the order in which the backtracking matcher tries them: its first element is the
  match the matcher reports. A repetition runs its body at most once per remaining
  character, since an iteration that consumes nothing is not repeated.
\<close>

type_synonym mstate = "nat \<times> (nat \<rightharpoonup> string)"

fun star_greedy :: "nat \<Rightarrow> (mstate \<Rightarrow> mstate list) \<Rightarrow> mstate \<Rightarrow> mstate list" where
  "star_greedy 0 f st = [st]"
| "star_greedy (Suc n) f st =
     concat (map (star_greedy n f) (filter (\<lambda>st'. fst st < fst st') (f st))) @ [st]"

fun star_lazy :: "nat \<Rightarrow> (mstate \<Rightarrow> mstate list) \<Rightarrow> mstate \<Rightarrow> mstate list" where
  "star_lazy 0 f st = [st]"
| "star_lazy (Suc n) f st =
     st # concat (map (star_lazy n f) (filter (\<lambda>st'. fst st < fst st') (f st)))"

definition is_word :: "string \<Rightarrow> nat \<Rightarrow> bool" where
  "is_word s i = (i < length s \<and> in_ranges cs_word (s ! i))"

primrec ms :: "bool \<Rightarrow> string \<Rightarrow> regex \<Rightarrow> mstate \<Rightarrow> mstate list" where
  "ms ic s (Lit p) st =
     (if fst st < length s \<and> lit_match ic p (s ! fst st) then [(Suc (fst st), snd st)] else [])"
| "ms ic s (Cls rs) st =
     (if fst st < length s \<and> cls_match ic rs (s ! fst st) then [(Suc (fst st), snd st)] else [])"
| "ms ic s (NCls rs) st =
     (if fst st < length s \<and> \<not> cls_match ic rs (s ! fst st) then [(Suc (fst st), snd st)] else [])"
| "ms ic s Dot st =
     (if fst st < length s \<and> s ! fst st \<noteq> CHR 0x0A then [(Suc (fst st), snd st)] else [])"
| "ms ic s Eps st = [st]"
| "ms ic s Bol st = (if fst st = 0 then [st] else [])"
| "ms ic s Eol st =
     (if fst st = length s \<or> (Suc (fst st) = length s \<and> s ! fst st = CHR 0x0A) then [st] else [])"
| "ms ic s Wordb st =
     (if (0 < fst st \<and> is_word s (fst st - 1)) \<noteq> is_word s (fst st) then [st] else [])"
| "ms ic s (Seq a b) st = concat (map (ms ic s b) (ms ic s a st))"
| "ms ic s (Alt a b) st = ms ic s a st @ ms ic s b st"
| "ms ic s (Opt a) st = ms ic s a st @ [st]"
| "ms ic s (Star a) st = star_greedy (length s - fst st) (ms ic s a) st"
| "ms ic s (Plus a) st =
     concat (map (star_greedy (length s - fst st) (ms ic s a)) (ms ic s a st))"
| "ms ic s (StarL a) st = star_lazy (length s - fst st) (ms ic s a) st"
| "ms ic s (PlusL a) st =
     concat (map (star_lazy (length s - fst st) (ms ic s a)) (ms ic s a st))"
| "ms ic s (Grp n a) st =
     map (\<lambda>st'. (fst st', (snd st')(n \<mapsto> take (fst st' - fst st) (drop (fst st) s)))) (ms ic s a st)"

text \<open>
  A match object: where the match starts and ends, and its groups. \<open>group m n\<close> is
  \<open>m.group(n)\<close>, \<open>None\<close> for a group that took no part in the match.
\<close>

record match =
  m_start :: nat
  m_end :: nat
  m_groups :: "nat \<rightharpoonup> string"

definition group :: "match \<Rightarrow> nat \<Rightarrow> string option" where
  "group m n = m_groups m n"

definition match_at :: "bool \<Rightarrow> regex \<Rightarrow> string \<Rightarrow> nat \<Rightarrow> match option" where
  "match_at ic r s i =
     (case ms ic s r (i, Map.empty) of
        [] \<Rightarrow> None
      | st # _ \<Rightarrow> Some \<lparr>m_start = i, m_end = fst st, m_groups = snd st\<rparr>)"

text \<open>\<open>pattern.match(s)\<close>: a match that starts at position 0.\<close>

definition re_match :: "bool \<Rightarrow> regex \<Rightarrow> string \<Rightarrow> match option" where
  "re_match ic r s = match_at ic r s 0"

text \<open>\<open>pattern.search(s)\<close>: the match at the leftmost position that has one.\<close>

fun search_from :: "bool \<Rightarrow> regex \<Rightarrow> string \<Rightarrow> nat \<Rightarrow> nat \<Rightarrow> match option" where
  "search_from ic r s i 0 = match_at ic r s i"
| "search_from ic r s i (Suc k) =
     (case match_at ic r s i of Some m \<Rightarrow> Some m | None \<Rightarrow> search_from ic r s (Suc i) k)"

definition re_search :: "bool \<Rightarrow> regex \<Rightarrow> string \<Rightarrow> match option" where
  "re_search ic r s = search_from ic r s 0 (length s)"

text \<open>
  \<open>re.sub(pattern, repl, s)\<close>: the matches are replaced from left to right, each search
  starting where the last match ended; after an empty match one character is copied.
  \<open>repl\<close> builds the replacement from the match.
\<close>

function sub_from :: "bool \<Rightarrow> regex \<Rightarrow> (match \<Rightarrow> string) \<Rightarrow> string \<Rightarrow> nat \<Rightarrow> string" where
  "sub_from ic r repl s i =
     (if length s < i then []
      else (case match_at ic r s i of
              None \<Rightarrow> (if i < length s then s ! i # sub_from ic r repl s (Suc i) else [])
            | Some m \<Rightarrow>
                repl m @
                (if i < m_end m then sub_from ic r repl s (m_end m)
                 else if i < length s then s ! i # sub_from ic r repl s (Suc i) else [])))"
  by pat_completeness auto
termination
  by (relation "measure (\<lambda>(ic, r, repl, s, i). Suc (length s) - i)") auto

declare sub_from.simps [simp del]

definition re_sub :: "bool \<Rightarrow> regex \<Rightarrow> (match \<Rightarrow> string) \<Rightarrow> string \<Rightarrow> string" where
  "re_sub ic r repl s = sub_from ic r repl s 0"

text \<open>
  A sequence of patterns, a literal word as a pattern, and the group reference \<open>\n\<close>
  of a replacement.
\<close>

fun seqs :: "regex list \<Rightarrow> regex" where
  "seqs [] = Eps"
| "seqs [r] = r"
| "seqs (r # rs) = Seq r (seqs rs)"

definition lits :: "string \<Rightarrow> regex" where
  "lits w = seqs (map Lit w)"

definition gref :: "match \<Rightarrow> nat \<Rightarrow> string" where
  "gref m n = (case group m n of None \<Rightarrow> [] | Some g \<Rightarrow> g)"


section \<open>The citation parser\<close>

subsection \<open>The patterns of \<open>_defineCitationPatterns\<close>\<close>

text \<open>All patterns are compiled with \<open>re.IGNORECASE\<close>.\<close>

definition sp :: regex where "sp = Cls cs_space"
definition dg :: regex where "dg = Cls cs_digit"
definition al :: regex where "al = Cls cs_alpha"

text \<open>\<^verbatim>\<open>([1-3]?\s*[A-Za-z]+(?:\s+of\s+[A-Za-z]+)?(?:\s+[A-Za-z]+)*)\s+(\d+):(\d+)(?:-(\d+))?\<close>\<close>

definition bible_standard :: regex where
  "bible_standard = seqs
     [Grp 1 (seqs [Opt (Cls [(CHR ''1'', CHR ''3'')]), Star sp, Plus al,
                   Opt (seqs [Plus sp, lits ''of'', Plus sp, Plus al]),
                   Star (seqs [Plus sp, Plus al])]),
      Plus sp, Grp 2 (Plus dg), Lit CHR '':'', Grp 3 (Plus dg),
      Opt (seqs [Lit CHR ''-'', Grp 4 (Plus dg)])]"

text \<open>\<^verbatim>\<open>([A-Za-z\s]+?)\.?\s+(\d+)(?:-(\d+))?\.?$\<close>\<close>

definition literature_simple :: regex where
  "literature_simple = seqs
     [Grp 1 (PlusL (Cls (cs_alpha @ cs_space))), Opt (Lit CHR ''.''), Plus sp, Grp 2 (Plus dg),
      Opt (seqs [Lit CHR ''-'', Grp 3 (Plus dg)]), Opt (Lit CHR ''.''), Eol]"

text \<open>\<^verbatim>\<open>([A-Za-z\s]+?)\s+(?:Book\s+)?([IVX]+|[0-9]+)[\.,]\s*(\d+)(?:-(\d+))?\<close>\<close>

definition literature_book :: regex where
  "literature_book = seqs
     [Grp 1 (PlusL (Cls (cs_alpha @ cs_space))), Plus sp, Opt (seqs [lits ''Book'', Plus sp]),
      Grp 2 (Alt (Plus (Cls [(CHR ''I'', CHR ''I''), (CHR ''V'', CHR ''V''), (CHR ''X'', CHR ''X'')]))
                 (Plus (Cls [(CHR ''0'', CHR ''9'')]))),
      Cls [(CHR ''.'', CHR ''.''), (CHR '','', CHR '','')], Star sp, Grp 3 (Plus dg),
      Opt (seqs [Lit CHR ''-'', Grp 4 (Plus dg)])]"

text \<open>\<^verbatim>\<open>([A-Za-z\s]+?)\s+Act\s+(\d+)\s+Scene\s+(\d+),?\s+(\d+)(?:-(\d+))?\<close>\<close>

definition literature_drama :: regex where
  "literature_drama = seqs
     [Grp 1 (PlusL (Cls (cs_alpha @ cs_space))), Plus sp, lits ''Act'', Plus sp, Grp 2 (Plus dg),
      Plus sp, lits ''Scene'', Plus sp, Grp 3 (Plus dg), Opt (Lit CHR '',''), Plus sp,
      Grp 4 (Plus dg), Opt (seqs [Lit CHR ''-'', Grp 5 (Plus dg)])]"

text \<open>\<^verbatim>\<open>cf\.\s*([^;]+);\s*([^;]+)\<close>\<close>

definition mixed_reference :: regex where
  "mixed_reference = seqs
     [lits ''cf.'', Star sp, Grp 1 (Plus (NCls [(CHR '';'', CHR '';'')])), Lit CHR '';'', Star sp,
      Grp 2 (Plus (NCls [(CHR '';'', CHR '';'')]))]"

subsection \<open>The book table of \<open>_buildBiblicalBookDatabase\<close>\<close>

definition biblical_books :: "(string \<times> string) list" where
  "biblical_books = [
    (''genesis'', ''Genesis''), (''gen'', ''Genesis''), (''ge'', ''Genesis''),
    (''exodus'', ''Exodus''), (''exod'', ''Exodus''), (''ex'', ''Exodus''),
    (''leviticus'', ''Leviticus''), (''lev'', ''Leviticus''), (''le'', ''Leviticus''),
    (''numbers'', ''Numbers''), (''num'', ''Numbers''), (''nu'', ''Numbers''),
    (''deuteronomy'', ''Deuteronomy''), (''deut'', ''Deuteronomy''), (''dt'', ''Deuteronomy''),
    (''joshua'', ''Joshua''), (''josh'', ''Joshua''), (''jos'', ''Joshua''),
    (''judges'', ''Judges''), (''judg'', ''Judges''), (''jdg'', ''Judges''),
    (''ruth'', ''Ruth''), (''ru'', ''Ruth''), (''1 samuel'', ''1 Samuel''),
    (''1sam'', ''1 Samuel''), (''1sa'', ''1 Samuel''), (''2 samuel'', ''2 Samuel''),
    (''2sam'', ''2 Samuel''), (''2sa'', ''2 Samuel''), (''1 kings'', ''1 Kings''),
    (''1kgs'', ''1 Kings''), (''1ki'', ''1 Kings''), (''2 kings'', ''2 Kings''),
    (''2kgs'', ''2 Kings''), (''2ki'', ''2 Kings''), (''1 chronicles'', ''1 Chronicles''),
    (''1chr'', ''1 Chronicles''), (''1ch'', ''1 Chronicles''),
    (''2 chronicles'', ''2 Chronicles''), (''2chr'', ''2 Chronicles''),
    (''2ch'', ''2 Chronicles''), (''ezra'', ''Ezra''), (''ezr'', ''Ezra''),
    (''nehemiah'', ''Nehemiah''), (''neh'', ''Nehemiah''), (''ne'', ''Nehemiah''),
    (''esther'', ''Esther''), (''est'', ''Esther''), (''es'', ''Esther''), (''job'', ''Job''),
    (''jb'', ''Job''), (''psalms'', ''Psalms''), (''psalm'', ''Psalms''), (''ps'', ''Psalms''),
    (''psa'', ''Psalms''), (''proverbs'', ''Proverbs''), (''prov'', ''Proverbs''),
    (''pr'', ''Proverbs''), (''ecclesiastes'', ''Ecclesiastes''), (''eccl'', ''Ecclesiastes''),
    (''ec'', ''Ecclesiastes''), (''song of solomon'', ''Song of Solomon''),
    (''song of songs'', ''Song of Solomon''), (''song'', ''Song of Solomon''),
    (''so'', ''Song of Solomon''), (''sos'', ''Song of Solomon''), (''isaiah'', ''Isaiah''),
    (''isa'', ''Isaiah''), (''is'', ''Isaiah''), (''jeremiah'', ''Jeremiah''),
    (''jer'', ''Jeremiah''), (''je'', ''Jeremiah''), (''lamentations'', ''Lamentations''),
    (''lam'', ''Lamentations''), (''la'', ''Lamentations''), (''ezekiel'', ''Ezekiel''),
    (''ezek'', ''Ezekiel''), (''eze'', ''Ezekiel''), (''daniel'', ''Daniel''),
    (''dan'', ''Daniel''), (''da'', ''Daniel''), (''hosea'', ''Hosea''), (''hos'', ''Hosea''),
    (''ho'', ''Hosea''), (''joel'', ''Joel''), (''joe'', ''Joel''), (''amos'', ''Amos''),
    (''am'', ''Amos''), (''obadiah'', ''Obadiah''), (''obad'', ''Obadiah''),
    (''ob'', ''Obadiah''), (''jonah'', ''Jonah''), (''jon'', ''Jonah''),
    (''micah'', ''Micah''), (''mic'', ''Micah''), (''mi'', ''Micah''), (''nahum'', ''Nahum''),
    (''nah'', ''Nahum''), (''na'', ''Nahum''), (''habakkuk'', ''Habakkuk''),
    (''hab'', ''Habakkuk''), (''hb'', ''Habakkuk''), (''zephaniah'', ''Zephaniah''),
    (''zeph'', ''Zephaniah''), (''zep'', ''Zephaniah''), (''haggai'', ''Haggai''),
    (''hag'', ''Haggai''), (''hg'', ''Haggai''), (''zechariah'', ''Zechariah''),
    (''zech'', ''Zechariah''), (''zec'', ''Zechariah''), (''malachi'', ''Malachi''),
    (''mal'', ''Malachi''), (''matthew'', ''Matthew''), (''matt'', ''Matthew''),
    (''mt'', ''Matthew''), (''mark'', ''Mark''), (''mk'', ''Mark''), (''luke'', ''Luke''),
    (''lk'', ''Luke''), (''john'', ''John''), (''jn'', ''John''), (''acts'', ''Acts''),
    (''ac'', ''Acts''), (''romans'', ''Romans''), (''rom'', ''Romans''), (''ro'', ''Romans''),
    (''1 corinthians'', ''1 Corinthians''), (''1cor'', ''1 Corinthians''),
    (''1co'', ''1 Corinthians''), (''2 corinthians'', ''2 Corinthians''),
    (''2cor'', ''2 Corinthians''), (''2co'', ''2 Corinthians''),
    (''galatians'', ''Galatians''), (''gal'', ''Galatians''), (''ga'', ''Galatians''),
    (''ephesians'', ''Ephesians''), (''eph'', ''Ephesians''), (''ep'', ''Ephesians''),
    (''philippians'', ''Philippians''), (''phil'', ''Philippians''),
    (''php'', ''Philippians''), (''colossians'', ''Colossians''), (''col'', ''Colossians''),
    (''1 thessalonians'', ''1 Thessalonians''), (''1thess'', ''1 Thessalonians''),
    (''1th'', ''1 Thessalonians''), (''2 thessalonians'', ''2 Thessalonians''),
    (''2thess'', ''2 Thessalonians''), (''2th'', ''2 Thessalonians''),
    (''1 timothy'', ''1 Timothy''), (''1tim'', ''1 Timothy''), (''1ti'', ''1 Timothy''),
    (''2 timothy'', ''2 Timothy''), (''2tim'', ''2 Timothy''), (''2ti'', ''2 Timothy''),
    (''titus'', ''Titus''), (''tit'', ''Titus''), (''ti'', ''Titus''),
    (''philemon'', ''Philemon''), (''phlm'', ''Philemon''), (''phm'', ''Philemon''),
    (''hebrews'', ''Hebrews''), (''heb'', ''Hebrews''), (''james'', ''James''),
    (''jas'', ''James''), (''ja'', ''James''), (''1 peter'', ''1 Peter''),
    (''1pet'', ''1 Peter''), (''1pe'', ''1 Peter''), (''2 peter'', ''2 Peter''),
    (''2pet'', ''2 Peter''), (''2pe'', ''2 Peter''), (''1 john'', ''1 John''),
    (''1jn'', ''1 John''), (''2 john'', ''2 John''), (''2jn'', ''2 John''),
    (''3 john'', ''3 John''), (''3jn'', ''3 John''), (''jude'', ''Jude''), (''jd'', ''Jude''),
    (''revelation'', ''Revelation''), (''rev'', ''Revelation''), (''re'', ''Revelation'')]"

text \<open>\<open>name in self.biblical_books\<close> and \<open>self.biblical_books[name]\<close> in one lookup.\<close>

definition book_lookup :: "string \<Rightarrow> string option" where
  "book_lookup name = map_of biblical_books name"

subsection \<open>\<open>normalizeBookNames\<close>\<close>

text \<open>
  The two patterns of the numbered-book step, \<^verbatim>\<open>^\d+\s*[a-z]+\<close> and
  \<^verbatim>\<open>^(\d+)\s*([a-z]+)\<close>, and \<^verbatim>\<open>\s+\<close>; none has a flag.
\<close>

definition numbered_book :: regex where
  "numbered_book = seqs [Bol, Plus dg, Star sp, Plus (Cls [(CHR ''a'', CHR ''z'')])]"

definition numbered_book_groups :: regex where
  "numbered_book_groups = seqs [Bol, Grp 1 (Plus dg), Star sp, Grp 2 (Plus (Cls [(CHR ''a'', CHR ''z'')]))]"

definition normalizeBookNames :: "string \<Rightarrow> string option" where
  "normalizeBookNames book_name =
     (let clean_name = lower (strip book_name);
          clean_name = re_sub False (Plus sp) (\<lambda>m. '' '') clean_name;
          clean_name =
            (if re_match False numbered_book clean_name \<noteq> None
             then re_sub False numbered_book_groups (\<lambda>m. gref m 1 @ '' '' @ gref m 2) clean_name
             else clean_name)
      in case book_lookup clean_name of
           Some canonical \<Rightarrow> Some canonical
         | None \<Rightarrow>
             (let no_space = filter (\<lambda>c. c \<noteq> CHR '' '') clean_name
              in book_lookup no_space))"


subsection \<open>Structured citations\<close>

text \<open>
  The dataclass \<open>CitationResult\<close>; a field that is \<open>None\<close> in the program is \<open>None\<close>
  here. Numbers are Python integers.
\<close>

record CitationResult =
  cr_type :: string
  cr_work :: "string option"
  cr_book :: "string option"
  cr_chapter :: "int option"
  cr_start_verse :: "int option"
  cr_end_verse :: "int option"
  cr_start_line :: "int option"
  cr_end_line :: "int option"
  cr_act :: "string option"
  cr_scene :: "string option"
  cr_book_number :: "string option"

definition blank :: "string \<Rightarrow> CitationResult" where
  "blank ty = \<lparr>cr_type = ty, cr_work = None, cr_book = None, cr_chapter = None,
     cr_start_verse = None, cr_end_verse = None, cr_start_line = None, cr_end_line = None,
     cr_act = None, cr_scene = None, cr_book_number = None\<rparr>"

text \<open>The truth value Python gives to an optional string and to an optional integer.\<close>

definition truthy_str :: "string option \<Rightarrow> bool" where
  "truthy_str v = (case v of None \<Rightarrow> False | Some s \<Rightarrow> s \<noteq> [])"

definition truthy_int :: "int option \<Rightarrow> bool" where
  "truthy_int v = (case v of None \<Rightarrow> False | Some i \<Rightarrow> i \<noteq> 0)"

text \<open>
  \<open>m.group(n)\<close> where the program reads it as a string. It is applied only to groups
  that take part in every match of their pattern (lemmas \<open>bible_standard_groups\<close> to
  \<open>mixed_reference_groups\<close> below).
\<close>

definition group_str :: "match \<Rightarrow> nat \<Rightarrow> string" where
  "group_str m n = (case group m n of None \<Rightarrow> [] | Some g \<Rightarrow> g)"

text \<open>\<open>int(m.group(n)) if m.group(n) else default\<close>\<close>

definition int_or :: "string option \<Rightarrow> int \<Rightarrow> int" where
  "int_or g dflt = (case g of None \<Rightarrow> dflt | Some d \<Rightarrow> if d = [] then dflt else int_of_digits d)"

subsection \<open>\<open>identifySourceType\<close>\<close>

definition identifySourceType :: "string \<Rightarrow> string" where
  "identifySourceType citation =
     (if str_in ''cf.'' (lower citation) \<and> CHR '';'' \<in> set citation then ''mixed''
      else if (case re_search True bible_standard citation of
                 None \<Rightarrow> False
               | Some biblical_match \<Rightarrow> truthy_str (normalizeBookNames (group_str biblical_match 1)))
      then ''bible''
      else if CHR '';'' \<in> set citation \<and> CHR '':'' \<in> set citation then ''bible''
      else ''literature'')"

subsection \<open>\<open>_parseBiblicalCitation\<close>\<close>

text \<open>
  A citation with a semicolon is split and each stripped part is parsed by the same
  function; a part has no semicolon left, which is why the recursion ends.
\<close>

function parseBiblicalCitation :: "string \<Rightarrow> CitationResult list" where
  "parseBiblicalCitation citation =
     (if CHR '';'' \<in> set citation
      then concat (map parseBiblicalCitation (map strip (split CHR '';'' citation)))
      else (case re_match True bible_standard (strip citation) of
              None \<Rightarrow> []
            | Some m \<Rightarrow>
                (let book_name = group_str m 1;
                     chapter = int_of_digits (group_str m 2);
                     start_verse = int_of_digits (group_str m 3);
                     end_verse = int_or (group m 4) start_verse;
                     normalized_book = normalizeBookNames book_name
                 in if truthy_str normalized_book
                    then [(blank ''bible'')\<lparr>cr_book := normalized_book, cr_chapter := Some chapter,
                            cr_start_verse := Some start_verse, cr_end_verse := Some end_verse\<rparr>]
                    else [])))"
  by pat_completeness auto
termination
proof (relation "measure (\<lambda>s. length (filter (\<lambda>c. c = CHR '';'') s))")
  show "wf (measure (\<lambda>s. length (filter (\<lambda>c. c = CHR '';'') s)))" by simp
next
  fix citation :: string and x :: string
  assume semi: "CHR '';'' \<in> set citation" and x: "x \<in> set (map strip (split CHR '';'' citation))"
  have no_sep: "sep \<notin> set p" if "p \<in> set (split sep s)" for sep :: char and s p
    using that
  proof (induction s arbitrary: p)
    case Nil
    then show ?case by simp
  next
    case (Cons c cs)
    then show ?case by (auto split: if_splits list.splits)
  qed
  have sub: "set (strip s) \<subseteq> set s" for s
    by (auto simp: strip_def dest!: set_dropWhileD)
  from x obtain p where p: "p \<in> set (split CHR '';'' citation)" and xp: "x = strip p" by auto
  from no_sep [OF p] sub [of p] xp have "CHR '';'' \<notin> set x" by auto
  then have "filter (\<lambda>c. c = CHR '';'') x = []" by (auto simp: filter_empty_conv)
  moreover from semi have "filter (\<lambda>c. c = CHR '';'') citation \<noteq> []"
    by (auto simp: filter_empty_conv)
  ultimately show "(x, citation) \<in> measure (\<lambda>s. length (filter (\<lambda>c. c = CHR '';'') s))"
    by simp
qed

declare parseBiblicalCitation.simps [simp del]

subsection \<open>\<open>_parseLiteraryCitation\<close>\<close>

definition parseLiteraryCitation :: "string \<Rightarrow> CitationResult list" where
  "parseLiteraryCitation citation =
     (case re_match True literature_drama citation of
        Some drama_match \<Rightarrow>
          (let work = strip (group_str drama_match 1);
               act = group_str drama_match 2;
               scene = group_str drama_match 3;
               start_line = int_of_digits (group_str drama_match 4);
               end_line = int_or (group drama_match 5) start_line
           in [(blank ''literature'')\<lparr>cr_work := Some work, cr_act := Some act, cr_scene := Some scene,
                  cr_start_line := Some start_line, cr_end_line := Some end_line\<rparr>])
      | None \<Rightarrow>
     (case re_match True literature_book citation of
        Some book_match \<Rightarrow>
          (let work = strip (group_str book_match 1);
               book_number = group_str book_match 2;
               start_line = int_of_digits (group_str book_match 3);
               end_line = int_or (group book_match 4) start_line
           in [(blank ''literature'')\<lparr>cr_work := Some work, cr_book_number := Some book_number,
                  cr_start_line := Some start_line, cr_end_line := Some end_line\<rparr>])
      | None \<Rightarrow>
     (case re_match True literature_simple citation of
        Some simple_match \<Rightarrow>
          (let work = strip (group_str simple_match 1);
               start_line = int_of_digits (group_str simple_match 2);
               end_line = int_or (group simple_match 3) start_line
           in [(blank ''literature'')\<lparr>cr_work := Some work,
                  cr_start_line := Some start_line, cr_end_line := Some end_line\<rparr>])
      | None \<Rightarrow> [])))"

subsection \<open>\<open>_parseMixedCitation\<close>\<close>

definition parseMixedCitation :: "string \<Rightarrow> CitationResult list" where
  "parseMixedCitation citation =
     (case re_match True mixed_reference citation of
        None \<Rightarrow> []
      | Some mixed_match \<Rightarrow>
          (let first_ref = strip (group_str mixed_match 1);
               second_ref = strip (group_str mixed_match 2)
           in (if identifySourceType first_ref = ''bible''
               then parseBiblicalCitation first_ref else parseLiteraryCitation first_ref) @
              (if identifySourceType second_ref = ''bible''
               then parseBiblicalCitation second_ref else parseLiteraryCitation second_ref)))"

subsection \<open>\<open>parseCitation\<close>\<close>

text \<open>
  A citation dictionary: \<open>None\<close> is a key that the dictionary does not have. The key
  \<open>type\<close> is always there.
\<close>

record citation_dict =
  d_type :: string
  d_work :: "string option"
  d_book :: "string option"
  d_chapter :: "int option"
  d_start_verse :: "int option"
  d_end_verse :: "int option"
  d_start_line :: "int option"
  d_end_line :: "int option"
  d_act :: "string option"
  d_scene :: "string option"
  d_book_number :: "string option"

text \<open>\<open>if citation.f: result_dict['f'] = citation.f\<close>, for a string and for a number.\<close>

definition keep_str :: "string option \<Rightarrow> string option" where
  "keep_str v = (if truthy_str v then v else None)"

definition keep_int :: "int option \<Rightarrow> int option" where
  "keep_int v = (if truthy_int v then v else None)"

definition to_dict :: "CitationResult \<Rightarrow> citation_dict" where
  "to_dict citation =
     \<lparr>d_type = cr_type citation,
      d_work = keep_str (cr_work citation),
      d_book = keep_str (cr_book citation),
      d_chapter = keep_int (cr_chapter citation),
      d_start_verse = keep_int (cr_start_verse citation),
      d_end_verse = keep_int (cr_end_verse citation),
      d_start_line = keep_int (cr_start_line citation),
      d_end_line = keep_int (cr_end_line citation),
      d_act = keep_str (cr_act citation),
      d_scene = keep_str (cr_scene citation),
      d_book_number = keep_str (cr_book_number citation)\<rparr>"

record parse_result =
  pr_citations :: "citation_dict list"
  pr_source_type :: string
  pr_original_text :: string

definition parseCitation :: "string \<Rightarrow> parse_result" where
  "parseCitation footnote_text0 =
     (let footnote_text = strip footnote_text0;
          source_type = identifySourceType footnote_text;
          citations =
            (if source_type = ''bible'' then parseBiblicalCitation footnote_text
             else if source_type = ''literature'' then parseLiteraryCitation footnote_text
             else if source_type = ''mixed'' then parseMixedCitation footnote_text
             else [])
      in \<lparr>pr_citations = map to_dict citations, pr_source_type = source_type,
          pr_original_text = footnote_text\<rparr>)"


section \<open>The extraction engine\<close>

subsection \<open>Data\<close>

text \<open>
  A metadata dictionary, with \<open>None\<close> for a key that is not there: the keys are those
  of the two dictionaries the engine builds, one for a literary passage and one for
  a biblical passage.
\<close>

record metadata =
  md_lines :: "string option"
  md_author :: "string option"
  md_title :: "string option"
  md_source_file :: "string option"
  md_total_lines :: "int option"
  md_book :: "string option"
  md_chapter :: "int option"
  md_verses :: "string option"
  md_translation :: "string option"
  md_source :: "string option"

definition no_metadata :: metadata where
  "no_metadata = \<lparr>md_lines = None, md_author = None, md_title = None, md_source_file = None,
     md_total_lines = None, md_book = None, md_chapter = None, md_verses = None,
     md_translation = None, md_source = None\<rparr>"

text \<open>
  The dataclass \<open>PassageCandidate\<close>. A Python \<open>float\<close> is modelled as a real number:
  the arithmetic of the scores is exact here and rounded in the program.
\<close>

record PassageCandidate =
  pc_source :: string
  pc_confidence :: real
  pc_text :: string
  pc_metadata :: metadata
  pc_start_position :: "int option"
  pc_end_position :: "int option"

text \<open>
  An entry of \<open>self.literary_works\<close>: the path of the text, the title and the author
  found by \<open>_extractWorkMetadata\<close>, and the normalized title.
\<close>

record work_info =
  wi_file_path :: string
  wi_title :: string
  wi_author :: string
  wi_normalized_title :: string

text \<open>
  The engine as \<open>__init__\<close> leaves it. \<open>literary_works\<close> is the index in the order of
  its insertion, one entry per work identifier; \<open>files\<close> is what \<open>readlines\<close> gives for
  a path, \<open>None\<close> when opening or reading the file raises.
\<close>

record engine =
  literary_works :: "(string \<times> work_info) list"
  files :: "string \<rightharpoonup> string list"

definition biblical_translations :: "string list" where
  "biblical_translations = [''ESV'', ''NIV'', ''KJV'', ''NASB'', ''NRSV'']"

datatype error = KeyError string

text \<open>\<open>xs[i:j]\<close> and \<open>xs[:j]\<close>, with Python's reading of negative and large indices.\<close>

definition slice :: "'a list \<Rightarrow> int \<Rightarrow> int \<Rightarrow> 'a list" where
  "slice xs i j =
     (let n = int (length xs);
          lo = (if i < 0 then max 0 (n + i) else min i n);
          hi = (if j < 0 then max 0 (n + j) else min j n)
      in take (nat (hi - lo)) (drop (nat lo) xs))"

definition slice_to :: "'a list \<Rightarrow> int \<Rightarrow> 'a list" where
  "slice_to xs j = slice xs 0 j"

subsection \<open>\<open>_normalizeTitle\<close>\<close>

text \<open>\<^verbatim>\<open>\b(the|a|an)\b\<close>, \<^verbatim>\<open>[^\w\s]\<close> and \<^verbatim>\<open>\s+\<close>, without flags.\<close>

definition stop_word :: regex where
  "stop_word = seqs [Wordb, Grp 1 (Alt (lits ''the'') (Alt (lits ''a'') (lits ''an''))), Wordb]"

definition normalizeTitle :: "string \<Rightarrow> string" where
  "normalizeTitle title0 =
     (let title = lower title0;
          title = re_sub False stop_word (\<lambda>m. []) title;
          title = re_sub False (NCls (cs_word @ cs_space)) (\<lambda>m. []) title;
          title = strip (re_sub False (Plus sp) (\<lambda>m. '' '') title)
      in title)"

subsection \<open>\<open>_cleanPassageText\<close> and \<open>_calculateTextQuality\<close>\<close>

text \<open>\<^verbatim>\<open>^\s*\d+\s*[.:]?\s*\<close>\<close>

definition numbered_lines :: regex where
  "numbered_lines = seqs [Bol, Star sp, Plus dg, Star sp,
     Opt (Cls [(CHR ''.'', CHR ''.''), (CHR '':'', CHR '':'')]), Star sp]"

definition cleanPassageText :: "string list \<Rightarrow> string" where
  "cleanPassageText lines =
     join [CHR 0x0A]
       (filter (\<lambda>cleaned. cleaned \<noteq> [])
          (map (\<lambda>line. strip (re_sub False numbered_lines (\<lambda>m. []) line)) lines))"

text \<open>\<^verbatim>\<open>[.!?]\<close> and \<^verbatim>\<open>\[.*?\]\<close>\<close>

definition terminal_punctuation :: regex where
  "terminal_punctuation = Cls [(CHR ''.'', CHR ''.''), (CHR ''!'', CHR ''!''), (CHR ''?'', CHR ''?'')]"

definition bracketed :: regex where
  "bracketed = seqs [Lit CHR ''['', StarL Dot, Lit CHR '']'']"

definition calculateTextQuality :: "string \<Rightarrow> real" where
  "calculateTextQuality text =
     (if text = [] then 0
      else (let quality_indicators =
                  [min 1 (real (length text) / 200),
                   (if \<not> endswith text ''...'' then 1 else 0.8),
                   (if re_search False terminal_punctuation text \<noteq> None then 1 else 0.6),
                   (if re_search False bracketed text = None then 1 else 0.7)]
            in sum_list quality_indicators / real (length quality_indicators)))"

subsection \<open>\<open>extractLiteraryPassage\<close>\<close>

definition extractLiteraryPassage :: "engine \<Rightarrow> string \<Rightarrow> int \<Rightarrow> int \<Rightarrow> PassageCandidate option" where
  "extractLiteraryPassage eng work_id start_line end_line =
     (case map_of (literary_works eng) work_id of
        None \<Rightarrow> None
      | Some work_info \<Rightarrow>
          (case files eng (wi_file_path work_info) of
             None \<Rightarrow> None
           | Some lines \<Rightarrow>
               if start_line \<le> 0 \<or> end_line > int (length lines) then None
               else (let passage_lines = slice lines (start_line - 1) end_line;
                         passage_text = cleanPassageText passage_lines;
                         confidence = calculateTextQuality passage_text;
                         metadata = no_metadata
                           \<lparr>md_lines := Some (str_of_int start_line @ ''-'' @ str_of_int end_line),
                            md_author := Some (wi_author work_info),
                            md_title := Some (wi_title work_info),
                            md_source_file := Some (wi_file_path work_info),
                            md_total_lines := Some (int (length lines))\<rparr>
                     in Some \<lparr>pc_source = ''gutenberg:'' @ work_id, pc_confidence = confidence,
                              pc_text = passage_text, pc_metadata = metadata,
                              pc_start_position = Some start_line,
                              pc_end_position = Some end_line\<rparr>)))"

subsection \<open>\<open>extractBiblicalPassage\<close>\<close>

definition sample_passages :: "((string \<times> int) \<times> (int \<times> string) list) list" where
  \<open>sample_passages =
     [((''Genesis'', 1),
       [(1, ''In the beginning, God created the heavens and the earth.''),
        (2, ''The earth was without form and void, and darkness was over the face of the deep.''),
        (3, ''And God said, "Let there be light," and there was light.'')]),
      ((''Matthew'', 5),
       [(3, ''Blessed are the poor in spirit, for theirs is the kingdom of heaven.''),
        (4, ''Blessed are those who mourn, for they shall be comforted.''),
        (5, ''Blessed are the meek, for they shall inherit the earth.'')]),
      ((''Romans'', 8),
       [(28, ''And we know that for those who love God all things work together for good, for those who are called according to his purpose.'')]),
      ((''1 Corinthians'', 13),
       [(4, ''Love is patient and kind; love does not envy or boast; it is not arrogant''),
        (5, ''or rude. It does not insist on its own way; it is not irritable or resentful;''),
        (6, ''it does not rejoice at wrongdoing, but rejoices with the truth.''),
        (7, ''Love bears all things, believes all things, hopes all things, endures all things.'')])]\<close>

definition generateSampleBiblicalText :: "string \<Rightarrow> int \<Rightarrow> int \<Rightarrow> int \<Rightarrow> string \<Rightarrow> string" where
  "generateSampleBiblicalText book chapter start_verse end_verse translation =
     (case map_of sample_passages (book, chapter) of
        None \<Rightarrow>
          book @ '' '' @ str_of_int chapter @ '':'' @ str_of_int start_verse @
          (if start_verse \<noteq> end_verse then ''-'' @ str_of_int end_verse else [])
      | Some verses \<Rightarrow>
          join '' ''
            (map (\<lambda>verse_num.
                    case map_of verses verse_num of
                      Some verse \<Rightarrow> str_of_int verse_num @ '' '' @ verse
                    | None \<Rightarrow> str_of_int verse_num @ '' [Verse text not available in demo]'')
               [start_verse..end_verse]))"

definition isValidBiblicalReference :: "string \<Rightarrow> int \<Rightarrow> int \<Rightarrow> int \<Rightarrow> bool" where
  "isValidBiblicalReference book chapter start_verse end_verse =
     (if chapter \<le> 0 \<or> start_verse \<le> 0 \<or> end_verse < start_verse then False
      else normalizeBookNames book \<noteq> None)"

definition extractBiblicalPassage ::
    "string \<Rightarrow> int \<Rightarrow> int \<Rightarrow> int \<Rightarrow> string \<Rightarrow> PassageCandidate option" where
  "extractBiblicalPassage book chapter start_verse end_verse translation0 =
     (let translation = (if translation0 \<notin> set biblical_translations then ''ESV'' else translation0);
          passage_text = generateSampleBiblicalText book chapter start_verse end_verse translation
      in if passage_text = [] then None
         else (let metadata = no_metadata
                     \<lparr>md_book := Some book, md_chapter := Some chapter,
                      md_verses := Some (if start_verse \<noteq> end_verse
                                         then str_of_int start_verse @ ''-'' @ str_of_int end_verse
                                         else str_of_int start_verse),
                      md_translation := Some translation, md_source := Some ''bible_api''\<rparr>;
                   confidence = (if isValidBiblicalReference book chapter start_verse end_verse
                                 then 0.95 else 0.3)
               in Some \<lparr>pc_source = ''bible:'' @ lower translation, pc_confidence = confidence,
                        pc_text = passage_text, pc_metadata = metadata,
                        pc_start_position = None, pc_end_position = None\<rparr>))"


subsection \<open>The confidence score\<close>

definition getSourceReliability :: "string \<Rightarrow> real" where
  "getSourceReliability source =
     (if startswith source ''bible:'' then 0.95
      else if startswith source ''gutenberg:'' then 0.85
      else 0.7)"

text \<open>\<open>metadata.get(field)\<close> counts when it is neither missing, nor empty, nor zero.\<close>

definition getMetadataCompleteness :: "metadata \<Rightarrow> real" where
  "getMetadataCompleteness metadata =
     (let required_fields =
            (if md_book metadata = None
             then [truthy_str (md_title metadata), truthy_str (md_author metadata)]
             else [truthy_str (md_book metadata), truthy_int (md_chapter metadata),
                   truthy_str (md_verses metadata)]);
          present_fields = length (filter (\<lambda>present. present) required_fields)
      in real present_fields / real (length required_fields))"

text \<open>\<open>metadata.get(key, "")\<close>\<close>

definition get_or_empty :: "string option \<Rightarrow> string" where
  "get_or_empty v = (case v of None \<Rightarrow> [] | Some s \<Rightarrow> s)"

definition getCitationMatchScore :: "PassageCandidate \<Rightarrow> string \<Rightarrow> real" where
  "getCitationMatchScore candidate original_citation =
     (let citation_lower = lower original_citation;
          score = 0.5;
          score = (if str_in (lower (get_or_empty (md_title (pc_metadata candidate)))) citation_lower
                   then score + 0.3 else score);
          score = (if str_in (lower (get_or_empty (md_author (pc_metadata candidate)))) citation_lower
                   then score + 0.2 else score)
      in min 1 score)"

text \<open>
  The two dictionaries \<open>factors\<close> and \<open>weights\<close> have the same keys in the same order;
  the sum runs over the keys of \<open>factors\<close>.
\<close>

definition calculateConfidenceScore :: "PassageCandidate \<Rightarrow> string \<Rightarrow> real" where
  "calculateConfidenceScore candidate original_citation =
     (let base_confidence = pc_confidence candidate;
          factors =
            [(''text_quality'', calculateTextQuality (pc_text candidate)),
             (''source_reliability'', getSourceReliability (pc_source candidate)),
             (''metadata_completeness'', getMetadataCompleteness (pc_metadata candidate)),
             (''citation_match'', getCitationMatchScore candidate original_citation)];
          weights =
            [(''text_quality'', 0.3), (''source_reliability'', 0.2),
             (''metadata_completeness'', 0.2), (''citation_match'', 0.3)];
          weighted_score =
            sum_list (map (\<lambda>(key, factor).
                             factor * (case map_of weights key of Some w \<Rightarrow> w | None \<Rightarrow> 0))
                        factors);
          final_confidence = (base_confidence + weighted_score) / 2
      in min 1 (max 0 final_confidence))"

subsection \<open>\<open>rankCandidates\<close>\<close>

text \<open>
  The loop overwrites the confidence of every candidate; \<open>list.sort\<close> with
  \<open>reverse=True\<close> is a stable sort on the confidence in descending order.
\<close>

definition rankCandidates :: "PassageCandidate list \<Rightarrow> PassageCandidate list" where
  "rankCandidates candidates =
     sort_key (\<lambda>x. - pc_confidence x)
       (map (\<lambda>candidate. candidate\<lparr>pc_confidence := calculateConfidenceScore candidate []\<rparr>)
          candidates)"

subsection \<open>\<open>_findLiteraryMatches\<close>\<close>

text \<open>
  \<open>sim a b\<close> stands for \<open>SequenceMatcher(None, a, b).ratio()\<close> of the standard library,
  which the functions below take as a parameter.
\<close>

text \<open>The list \<open>work_scores\<close> of \<open>_findLiteraryMatches\<close> after its sort.\<close>

definition work_scores ::
    "(string \<Rightarrow> string \<Rightarrow> real) \<Rightarrow> engine \<Rightarrow> string \<Rightarrow> (string \<times> real \<times> work_info) list" where
  "work_scores sim eng work_title =
     (let normalized_title = normalizeTitle work_title;
          work_scores =
            filter (\<lambda>(work_id, similarity, work_info). similarity > 0.3)
              (map (\<lambda>(work_id, work_info).
                      (work_id, sim normalized_title (wi_normalized_title work_info), work_info))
                 (literary_works eng))
      in sort_key (\<lambda>(work_id, similarity, work_info). - similarity) work_scores)"

definition findLiteraryMatches ::
    "(string \<Rightarrow> string \<Rightarrow> real) \<Rightarrow> engine \<Rightarrow> string \<Rightarrow> citation_dict \<Rightarrow> PassageCandidate list" where
  "findLiteraryMatches sim eng work_title citation_data =
     (let start_line = (case d_start_line citation_data of Some n \<Rightarrow> n | None \<Rightarrow> 1);
          end_line = (case d_end_line citation_data of Some n \<Rightarrow> n | None \<Rightarrow> start_line)
      in concat
           (map (\<lambda>(work_id, similarity, work_info).
                   case extractLiteraryPassage eng work_id start_line end_line of
                     None \<Rightarrow> []
                   | Some candidate \<Rightarrow>
                       [candidate\<lparr>pc_confidence := pc_confidence candidate * similarity\<rparr>])
              (take 3 (work_scores sim eng work_title))))"

subsection \<open>\<open>generatePassageCandidates\<close>\<close>

text \<open>\<open>d[key]\<close>, which raises \<open>KeyError\<close> for a key that is not there.\<close>

definition getitem :: "string \<Rightarrow> 'a option \<Rightarrow> error + 'a" where
  "getitem key v = (case v of None \<Rightarrow> Inl (KeyError key) | Some x \<Rightarrow> Inr x)"

text \<open>
  The loop over the parsed citations, with the candidates collected so far. The
  arguments of \<open>extractBiblicalPassage\<close> are read from left to right; the translation is
  the default \<open>"ESV"\<close>.
\<close>

fun collect ::
    "(string \<Rightarrow> string \<Rightarrow> real) \<Rightarrow> engine \<Rightarrow> citation_dict list \<Rightarrow> PassageCandidate list
      \<Rightarrow> error + PassageCandidate list" where
  "collect sim eng [] candidates = Inr candidates"
| "collect sim eng (parsed_citation # rest) candidates =
     (if d_type parsed_citation = ''bible'' then
        (case getitem ''book'' (d_book parsed_citation) of Inl e \<Rightarrow> Inl e | Inr book \<Rightarrow>
         case getitem ''chapter'' (d_chapter parsed_citation) of Inl e \<Rightarrow> Inl e | Inr chapter \<Rightarrow>
         case getitem ''start_verse'' (d_start_verse parsed_citation) of Inl e \<Rightarrow> Inl e | Inr start_verse \<Rightarrow>
         case getitem ''end_verse'' (d_end_verse parsed_citation) of Inl e \<Rightarrow> Inl e | Inr end_verse \<Rightarrow>
         case extractBiblicalPassage book chapter start_verse end_verse ''ESV'' of
           Some biblical_candidate \<Rightarrow> collect sim eng rest (candidates @ [biblical_candidate])
         | None \<Rightarrow> collect sim eng rest candidates)
      else if d_type parsed_citation = ''literature'' then
        (case getitem ''work'' (d_work parsed_citation) of Inl e \<Rightarrow> Inl e | Inr work_title \<Rightarrow>
         collect sim eng rest (candidates @ findLiteraryMatches sim eng work_title parsed_citation))
      else collect sim eng rest candidates)"

definition generatePassageCandidates ::
    "(string \<Rightarrow> string \<Rightarrow> real) \<Rightarrow> engine \<Rightarrow> string \<Rightarrow> int \<Rightarrow> error + PassageCandidate list" where
  "generatePassageCandidates sim eng citation max_candidates =
     (let parsed = parseCitation citation
      in case collect sim eng (pr_citations parsed) [] of
           Inl e \<Rightarrow> Inl e
         | Inr candidates \<Rightarrow> Inr (slice_to (rankCandidates candidates) max_candidates))"

subsection \<open>\<open>extractPassageFromCitation\<close>\<close>

text \<open>\<open>round(x, 3)\<close> on the real number: to the nearest thousandth, a tie to the even one.\<close>

definition round3 :: "real \<Rightarrow> real" where
  "round3 x =
     (let y = x * 1000; f = \<lfloor>y\<rfloor>
      in (if y - of_int f < 1 / 2 then of_int f
          else if y - of_int f > 1 / 2 then of_int (f + 1)
          else if even f then of_int f else of_int (f + 1)) / 1000)"

record candidate_dict =
  cd_source :: string
  cd_confidence :: real
  cd_text :: string
  cd_metadata :: metadata

record extraction =
  ex_original_citation :: string
  ex_candidates :: "candidate_dict list"
  ex_best_match :: "candidate_dict option"

definition extractPassageFromCitation ::
    "(string \<Rightarrow> string \<Rightarrow> real) \<Rightarrow> engine \<Rightarrow> string \<Rightarrow> error + extraction" where
  "extractPassageFromCitation sim eng citation =
     (case generatePassageCandidates sim eng citation 5 of
        Inl e \<Rightarrow> Inl e
      | Inr candidates \<Rightarrow>
          (let candidate_dicts =
                 map (\<lambda>candidate.
                        \<lparr>cd_source = pc_source candidate,
                         cd_confidence = round3 (pc_confidence candidate),
                         cd_text = pc_text candidate,
                         cd_metadata = pc_metadata candidate\<rparr>)
                   candidates
           in Inr \<lparr>ex_original_citation = citation, ex_candidates = candidate_dicts,
                   ex_best_match = (case candidate_dicts of [] \<Rightarrow> None | best # _ \<Rightarrow> Some best)\<rparr>))"


section \<open>Notions used in the proofs\<close>

text \<open>
  \<open>sets_group g r\<close>: every match of \<open>r\<close> goes through the group \<open>g\<close>.
  \<open>digit_group g r\<close>: wherever the group \<open>g\<close> occurs in \<open>r\<close>, it is \<^verbatim>\<open>(\d+)\<close>.
\<close>

fun sets_group :: "nat \<Rightarrow> regex \<Rightarrow> bool" where
  "sets_group g (Grp n a) = (n = g \<or> sets_group g a)"
| "sets_group g (Seq a b) = (sets_group g a \<or> sets_group g b)"
| "sets_group g (Alt a b) = (sets_group g a \<and> sets_group g b)"
| "sets_group g (Plus a) = sets_group g a"
| "sets_group g (PlusL a) = sets_group g a"
| "sets_group g r = False"

fun digit_group :: "nat \<Rightarrow> regex \<Rightarrow> bool" where
  "digit_group g (Grp n a) = (if n = g then a = Plus (Cls cs_digit) else digit_group g a)"
| "digit_group g (Seq a b) = (digit_group g a \<and> digit_group g b)"
| "digit_group g (Alt a b) = (digit_group g a \<and> digit_group g b)"
| "digit_group g (Opt a) = digit_group g a"
| "digit_group g (Star a) = digit_group g a"
| "digit_group g (Plus a) = digit_group g a"
| "digit_group g (StarL a) = digit_group g a"
| "digit_group g (PlusL a) = digit_group g a"
| "digit_group g r = True"

definition is_digit :: "char \<Rightarrow> bool" where
  "is_digit c = (48 \<le> code c \<and> code c \<le> 57)"

definition digits :: "string option \<Rightarrow> bool" where
  "digits v = (case v of None \<Rightarrow> True | Some x \<Rightarrow> x \<noteq> [] \<and> list_all is_digit x)"

text \<open>
  The score as the specification words it: the text quality is the average of the four
  indicators for every text, and the score is the clamped midpoint of the prior
  confidence and the weighted sum of the four factors.
\<close>

definition spec_textQuality :: "string \<Rightarrow> real" where
  "spec_textQuality text =
     (min 1 (real (length text) / 200) +
      (if endswith text ''...'' then 0.8 else 1) +
      (if list_ex (\<lambda>c. c \<in> set ''.!?'') text then 1 else 0.6) +
      (if re_search False bracketed text \<noteq> None then 0.7 else 1)) / 4"

definition spec_score :: "PassageCandidate \<Rightarrow> string \<Rightarrow> real" where
  "spec_score candidate original_citation =
     min 1 (max 0
       ((pc_confidence candidate +
         (0.30 * spec_textQuality (pc_text candidate) +
          0.20 * getSourceReliability (pc_source candidate) +
          0.20 * getMetadataCompleteness (pc_metadata candidate) +
          0.30 * getCitationMatchScore candidate original_citation)) / 2))"

text \<open>
  An engine and a similarity function on which the model is run: an index of two
  works, and a similarity that is 1 for equal titles, 1/2 for titles with the same
  first letter and 0 otherwise.
\<close>

definition sample_engine :: engine where
  "sample_engine =
     \<lparr>literary_works =
        [(''beo'', \<lparr>wi_file_path = ''cleaned/beo.txt'', wi_title = ''Beo'', wi_author = [],
                   wi_normalized_title = ''beo''\<rparr>),
         (''beowulf'', \<lparr>wi_file_path = ''cleaned/beowulf.txt'', wi_title = ''Beowulf'',
                       wi_author = ''Anonymous'', wi_normalized_title = ''beowulf''\<rparr>),
         (''hamlet'', \<lparr>wi_file_path = ''cleaned/hamlet.txt'', wi_title = ''Hamlet'',
                      wi_author = ''Shakespeare'', wi_normalized_title = ''hamlet''\<rparr>)],
      files =
        [''cleaned/beo.txt'' \<mapsto> [''a'', ''b''],
         ''cleaned/beowulf.txt'' \<mapsto> [''1 Hwaet.'', ''We Gardena'', ''in geardagum'']]\<rparr>"

definition sample_sim :: "string \<Rightarrow> string \<Rightarrow> real" where
  "sample_sim a b = (if a = b then 1 else if take 1 a = take 1 b then 1 / 2 else 0)"

text \<open>Two candidates on which the score is run: one without text, one with a short text.\<close>

definition empty_candidate :: PassageCandidate where
  "empty_candidate = \<lparr>pc_source = ''gutenberg:beowulf'', pc_confidence = 0, pc_text = [],
     pc_metadata = no_metadata, pc_start_position = None, pc_end_position = None\<rparr>"

definition short_candidate :: PassageCandidate where
  "short_candidate = \<lparr>pc_source = ''gutenberg:beowulf'', pc_confidence = 1 / 2, pc_text = ''Hwaet.'',
     pc_metadata = no_metadata, pc_start_position = None, pc_end_position = None\<rparr>"

section \<open>Properties\<close>

subsection \<open>What a match captures\<close>

lemma star_greedy_pres:
  assumes step: "\<And>a b. b \<in> set (f a) \<Longrightarrow> P a \<Longrightarrow> P b"
  shows "st' \<in> set (star_greedy n f st) \<Longrightarrow> P st \<Longrightarrow> P st'"
proof (induction n arbitrary: st)
  case 0
  then show ?case by simp
next
  case (Suc n)
  from Suc.prems(1) consider "st' = st"
    | mid where "mid \<in> set (f st)" "st' \<in> set (star_greedy n f mid)"
    by auto
  then show ?case
  proof cases
    case 1
    with Suc.prems show ?thesis by simp
  next
    case 2
    from step [OF 2(1) Suc.prems(2)] have "P mid" .
    from Suc.IH [OF 2(2) this] show ?thesis .
  qed
qed

lemma star_lazy_pres:
  assumes step: "\<And>a b. b \<in> set (f a) \<Longrightarrow> P a \<Longrightarrow> P b"
  shows "st' \<in> set (star_lazy n f st) \<Longrightarrow> P st \<Longrightarrow> P st'"
proof (induction n arbitrary: st)
  case 0
  then show ?case by simp
next
  case (Suc n)
  from Suc.prems(1) consider "st' = st"
    | mid where "mid \<in> set (f st)" "st' \<in> set (star_lazy n f mid)"
    by auto
  then show ?case
  proof cases
    case 1
    with Suc.prems show ?thesis by simp
  next
    case 2
    from step [OF 2(1) Suc.prems(2)] have "P mid" .
    from Suc.IH [OF 2(2) this] show ?thesis .
  qed
qed

lemma ms_keeps_group:
  "st' \<in> set (ms ic s r st) \<Longrightarrow> snd st g \<noteq> None \<Longrightarrow> snd st' g \<noteq> None"
proof (induction r arbitrary: st st')
  case (Seq a b)
  from Seq.prems(1) obtain mid where "mid \<in> set (ms ic s a st)" "st' \<in> set (ms ic s b mid)"
    by auto
  with Seq.IH Seq.prems(2) show ?case by blast
next
  case (Alt a b)
  from Alt.prems(1) consider "st' \<in> set (ms ic s a st)" | "st' \<in> set (ms ic s b st)"
    by auto
  then show ?case using Alt.IH Alt.prems(2) by cases blast+
next
  case (Opt a)
  from Opt.prems(1) consider "st' \<in> set (ms ic s a st)" | "st' = st"
    by auto
  then show ?case using Opt.IH Opt.prems(2) by cases blast+
next
  case (Star a)
  from Star.prems(1) have "st' \<in> set (star_greedy (length s - fst st) (ms ic s a) st)" by simp
  from star_greedy_pres [of "ms ic s a" "\<lambda>x. snd x g \<noteq> None", OF Star.IH this Star.prems(2)]
  show ?case .
next
  case (Plus a)
  from Plus.prems(1) obtain mid where mid: "mid \<in> set (ms ic s a st)"
    and rest: "st' \<in> set (star_greedy (length s - fst st) (ms ic s a) mid)" by auto
  from Plus.IH [OF mid Plus.prems(2)] have "snd mid g \<noteq> None" .
  from star_greedy_pres [of "ms ic s a" "\<lambda>x. snd x g \<noteq> None", OF Plus.IH rest this]
  show ?case .
next
  case (StarL a)
  from StarL.prems(1) have "st' \<in> set (star_lazy (length s - fst st) (ms ic s a) st)" by simp
  from star_lazy_pres [of "ms ic s a" "\<lambda>x. snd x g \<noteq> None", OF StarL.IH this StarL.prems(2)]
  show ?case .
next
  case (PlusL a)
  from PlusL.prems(1) obtain mid where mid: "mid \<in> set (ms ic s a st)"
    and rest: "st' \<in> set (star_lazy (length s - fst st) (ms ic s a) mid)" by auto
  from PlusL.IH [OF mid PlusL.prems(2)] have "snd mid g \<noteq> None" .
  from star_lazy_pres [of "ms ic s a" "\<lambda>x. snd x g \<noteq> None", OF PlusL.IH rest this]
  show ?case .
next
  case (Grp n a)
  from Grp.prems(1) obtain mid where mid: "mid \<in> set (ms ic s a st)"
    and st': "st' = (fst mid, (snd mid)(n \<mapsto> take (fst mid - fst st) (drop (fst st) s)))" by auto
  from Grp.IH [OF mid Grp.prems(2)] st' show ?case by simp
qed (auto split: if_splits)

lemma ms_sets_group:
  "sets_group g r \<Longrightarrow> st' \<in> set (ms ic s r st) \<Longrightarrow> snd st' g \<noteq> None"
proof (induction r arbitrary: st st')
  case (Seq a b)
  from Seq.prems(2) obtain mid where mid: "mid \<in> set (ms ic s a st)"
    and st': "st' \<in> set (ms ic s b mid)" by auto
  from Seq.prems(1) consider "sets_group g a" | "sets_group g b" by auto
  then show ?case
  proof cases
    case 1
    from Seq.IH(1) [OF 1 mid] have "snd mid g \<noteq> None" .
    with st' show ?thesis by (rule ms_keeps_group)
  next
    case 2
    from Seq.IH(2) [OF 2 st'] show ?thesis .
  qed
next
  case (Alt a b)
  from Alt.prems(2) consider "st' \<in> set (ms ic s a st)" | "st' \<in> set (ms ic s b st)"
    by auto
  then show ?case using Alt.IH Alt.prems(1) by cases auto
next
  case (Plus a)
  from Plus.prems(2) obtain mid where mid: "mid \<in> set (ms ic s a st)"
    and rest: "st' \<in> set (star_greedy (length s - fst st) (ms ic s a) mid)" by auto
  from Plus.prems(1) have "sets_group g a" by simp
  from Plus.IH [OF this mid] have "snd mid g \<noteq> None" .
  from star_greedy_pres [of "ms ic s a" "\<lambda>x. snd x g \<noteq> None", OF ms_keeps_group rest this]
  show ?case .
next
  case (PlusL a)
  from PlusL.prems(2) obtain mid where mid: "mid \<in> set (ms ic s a st)"
    and rest: "st' \<in> set (star_lazy (length s - fst st) (ms ic s a) mid)" by auto
  from PlusL.prems(1) have "sets_group g a" by simp
  from PlusL.IH [OF this mid] have "snd mid g \<noteq> None" .
  from star_lazy_pres [of "ms ic s a" "\<lambda>x. snd x g \<noteq> None", OF ms_keeps_group rest this]
  show ?case .
next
  case (Grp n a)
  from Grp.prems(2) obtain mid where mid: "mid \<in> set (ms ic s a st)"
    and st': "st' = (fst mid, (snd mid)(n \<mapsto> take (fst mid - fst st) (drop (fst st) s)))" by auto
  show ?case
  proof (cases "n = g")
    case True
    with st' show ?thesis by simp
  next
    case False
    with Grp.prems(1) have "sets_group g a" by simp
    from Grp.IH [OF this mid] st' show ?thesis by simp
  qed
qed simp_all


lemma code_char_of: "0 \<le> k \<Longrightarrow> k < 256 \<Longrightarrow> code (char_of k) = k"
  by (simp add: code_def of_char_of)

lemma cls_digit_is_digit: "cls_match ic cs_digit c \<Longrightarrow> is_digit c"
proof -
  have "code c = int (of_char c)"
    by (simp add: code_def of_nat_of_char)
  then have range: "0 \<le> code c" "code c < 256"
    by simp_all
  have bounds: "code CHR ''0'' = 48" "code CHR ''9'' = 57"
    by (simp_all add: code_def)
  have low: "in_ranges cs_digit (ascii_lower c) \<Longrightarrow> is_digit c"
    using range by (auto simp: in_ranges_def cs_digit_def ascii_lower_def is_digit_def Let_def
        code_char_of bounds split: if_splits)
  have up: "in_ranges cs_digit (ascii_upper c) \<Longrightarrow> is_digit c"
    using range by (auto simp: in_ranges_def cs_digit_def ascii_upper_def is_digit_def Let_def
        code_char_of bounds split: if_splits)
  have same: "in_ranges cs_digit c \<Longrightarrow> is_digit c"
    by (simp add: in_ranges_def cs_digit_def is_digit_def bounds)
  assume "cls_match ic cs_digit c"
  with low up same show ?thesis by (auto simp: cls_match_def)
qed

lemma plus_cls_span:
  assumes "st' \<in> set (ms ic s (Plus (Cls rs)) st)"
  shows "fst st < fst st' \<and> fst st' \<le> length s \<and>
         (\<forall>j. fst st \<le> j \<and> j < fst st' \<longrightarrow> cls_match ic rs (s ! j))"
proof -
  let ?P = "\<lambda>x::mstate. fst st < fst x \<and> fst x \<le> length s \<and>
              (\<forall>j. fst st \<le> j \<and> j < fst x \<longrightarrow> cls_match ic rs (s ! j))"
  from assms obtain mid where mid: "mid \<in> set (ms ic s (Cls rs) st)"
    and rest: "st' \<in> set (star_greedy (length s - fst st) (ms ic s (Cls rs)) mid)" by auto
  from mid have first: "?P mid"
    by (auto split: if_splits simp: less_Suc_eq)
  have step: "?P b" if "b \<in> set (ms ic s (Cls rs) a)" "?P a" for a b
    using that by (auto split: if_splits simp: less_Suc_eq)
  from star_greedy_pres [of "ms ic s (Cls rs)" ?P, OF step rest first] show ?thesis .
qed

lemma ms_digit_group:
  "digit_group g r \<Longrightarrow> st' \<in> set (ms ic s r st) \<Longrightarrow> digits (snd st g) \<Longrightarrow> digits (snd st' g)"
proof (induction r arbitrary: st st')
  case (Seq a b)
  from Seq.prems(2) obtain mid where "mid \<in> set (ms ic s a st)" "st' \<in> set (ms ic s b mid)"
    by auto
  with Seq.IH Seq.prems(1,3) show ?case by (metis digit_group.simps(2))
next
  case (Alt a b)
  from Alt.prems(2) consider "st' \<in> set (ms ic s a st)" | "st' \<in> set (ms ic s b st)"
    by auto
  then show ?case using Alt.IH Alt.prems(1,3) by cases auto
next
  case (Opt a)
  from Opt.prems(2) consider "st' \<in> set (ms ic s a st)" | "st' = st"
    by auto
  then show ?case using Opt.IH Opt.prems(1,3) by cases auto
next
  case (Star a)
  from Star.prems(1) have dg: "digit_group g a" by simp
  from Star.prems(2) have "st' \<in> set (star_greedy (length s - fst st) (ms ic s a) st)" by simp
  from star_greedy_pres [of "ms ic s a" "\<lambda>x. digits (snd x g)", OF Star.IH [OF dg] this Star.prems(3)]
  show ?case .
next
  case (Plus a)
  from Plus.prems(1) have dg: "digit_group g a" by simp
  from Plus.prems(2) obtain mid where mid: "mid \<in> set (ms ic s a st)"
    and rest: "st' \<in> set (star_greedy (length s - fst st) (ms ic s a) mid)" by auto
  from Plus.IH [OF dg mid Plus.prems(3)] have "digits (snd mid g)" .
  from star_greedy_pres [of "ms ic s a" "\<lambda>x. digits (snd x g)", OF Plus.IH [OF dg] rest this]
  show ?case .
next
  case (StarL a)
  from StarL.prems(1) have dg: "digit_group g a" by simp
  from StarL.prems(2) have "st' \<in> set (star_lazy (length s - fst st) (ms ic s a) st)" by simp
  from star_lazy_pres [of "ms ic s a" "\<lambda>x. digits (snd x g)", OF StarL.IH [OF dg] this StarL.prems(3)]
  show ?case .
next
  case (PlusL a)
  from PlusL.prems(1) have dg: "digit_group g a" by simp
  from PlusL.prems(2) obtain mid where mid: "mid \<in> set (ms ic s a st)"
    and rest: "st' \<in> set (star_lazy (length s - fst st) (ms ic s a) mid)" by auto
  from PlusL.IH [OF dg mid PlusL.prems(3)] have "digits (snd mid g)" .
  from star_lazy_pres [of "ms ic s a" "\<lambda>x. digits (snd x g)", OF PlusL.IH [OF dg] rest this]
  show ?case .
next
  case (Grp n a)
  from Grp.prems(2) obtain mid where mid: "mid \<in> set (ms ic s a st)"
    and st': "st' = (fst mid, (snd mid)(n \<mapsto> take (fst mid - fst st) (drop (fst st) s)))" by auto
  show ?case
  proof (cases "n = g")
    case True
    with Grp.prems(1) have a: "a = Plus (Cls cs_digit)" by simp
    from plus_cls_span [OF mid [unfolded a]]
    have span: "fst st < fst mid" "fst mid \<le> length s"
      "\<And>j. fst st \<le> j \<Longrightarrow> j < fst mid \<Longrightarrow> cls_match ic cs_digit (s ! j)" by auto
    let ?x = "take (fst mid - fst st) (drop (fst st) s)"
    from span(1,2) have len: "length ?x = fst mid - fst st" by simp
    with span(1) have "?x \<noteq> []" by auto
    moreover have "list_all is_digit ?x"
      unfolding list_all_length
    proof (intro allI impI)
      fix k
      assume k: "k < length ?x"
      with len have below: "fst st + k < fst mid" by arith
      from k span(2) have "?x ! k = s ! (fst st + k)" by simp
      moreover from below have "cls_match ic cs_digit (s ! (fst st + k))"
        by (intro span(3)) simp_all
      ultimately show "is_digit (?x ! k)" by (simp add: cls_digit_is_digit)
    qed
    ultimately show ?thesis using st' True by (simp add: digits_def)
  next
    case False
    with Grp.prems(1) have "digit_group g a" by simp
    from Grp.IH [OF this mid Grp.prems(3)] st' False show ?thesis by simp
  qed
qed (auto split: if_splits)

lemma int_of_digits_nonneg:
  assumes "list_all is_digit x"
  shows "0 \<le> int_of_digits x"
proof -
  have "0 \<le> foldl (\<lambda>a c. 10 * a + (code c - 48)) a x" if "0 \<le> a" "list_all is_digit x" for a
    using that by (induction x arbitrary: a) (auto simp: is_digit_def)
  with assms show ?thesis by (simp add: int_of_digits_def)
qed

lemma match_at_member:
  "match_at ic r s i = Some m \<Longrightarrow> (m_end m, m_groups m) \<in> set (ms ic s r (i, Map.empty))"
  by (auto simp: match_at_def split: list.splits)

lemma match_group_present:
  "sets_group g r \<Longrightarrow> match_at ic r s i = Some m \<Longrightarrow> group m g \<noteq> None"
  using ms_sets_group [of g r "(m_end m, m_groups m)" ic s "(i, Map.empty)"]
  by (simp add: match_at_member group_def)

lemma match_group_digits:
  "digit_group g r \<Longrightarrow> match_at ic r s i = Some m \<Longrightarrow> digits (group m g)"
  using ms_digit_group [of g r "(m_end m, m_groups m)" ic s "(i, Map.empty)"]
  by (simp add: match_at_member group_def digits_def)

lemma search_from_match_at:
  "search_from ic r s i k = Some m \<Longrightarrow> \<exists>j. match_at ic r s j = Some m"
  by (induction k arbitrary: i) (auto split: option.splits)

lemma bible_standard_sets: "sets_group 1 bible_standard" "sets_group 2 bible_standard" "sets_group 3 bible_standard"
  by (simp_all add: bible_standard_def)

lemma bible_standard_digit: "digit_group 2 bible_standard" "digit_group 3 bible_standard" "digit_group 4 bible_standard"
  by (simp_all add: bible_standard_def dg_def sp_def al_def lits_def)

lemma literature_drama_groups:
  "sets_group 1 literature_drama" "sets_group 2 literature_drama" "sets_group 3 literature_drama"
  "sets_group 4 literature_drama" "digit_group 4 literature_drama" "digit_group 5 literature_drama"
  by (simp_all add: literature_drama_def dg_def sp_def al_def lits_def)

lemma literature_book_groups:
  "sets_group 1 literature_book" "sets_group 2 literature_book" "sets_group 3 literature_book"
  "digit_group 3 literature_book" "digit_group 4 literature_book"
  by (simp_all add: literature_book_def dg_def sp_def al_def lits_def)

lemma literature_simple_groups:
  "sets_group 1 literature_simple" "sets_group 2 literature_simple"
  "digit_group 2 literature_simple" "digit_group 3 literature_simple"
  by (simp_all add: literature_simple_def dg_def sp_def al_def lits_def)

lemma mixed_reference_groups:
  "sets_group 1 mixed_reference" "sets_group 2 mixed_reference"
  by (simp_all add: mixed_reference_def dg_def sp_def al_def lits_def)

lemma group_str_nonneg:
  assumes "sets_group g r" "digit_group g r" "re_match ic r s = Some m"
  shows "0 \<le> int_of_digits (group_str m g)"
proof -
  from assms(3) have m: "match_at ic r s 0 = Some m" by (simp add: re_match_def)
  from match_group_present [OF assms(1) m] obtain x where x: "group m g = Some x" by auto
  from match_group_digits [OF assms(2) m] x have "list_all is_digit x" by (simp add: digits_def)
  then have "0 \<le> int_of_digits x" by (rule int_of_digits_nonneg)
  with x show ?thesis by (simp add: group_str_def)
qed

lemma int_or_nonneg:
  assumes "digit_group g r" "re_match ic r s = Some m" "0 \<le> d"
  shows "0 \<le> int_or (group m g) d"
proof (cases "group m g")
  case None
  with assms(3) show ?thesis by (simp add: int_or_def)
next
  case (Some x)
  from assms(2) have m: "match_at ic r s 0 = Some m" by (simp add: re_match_def)
  from match_group_digits [OF assms(1) m] Some have "list_all is_digit x" by (simp add: digits_def)
  then have "0 \<le> int_of_digits x" by (rule int_of_digits_nonneg)
  with Some assms(3) show ?thesis by (simp add: int_or_def)
qed

subsection \<open>Biblical passages are always found\<close>

lemma str_of_nat_nonempty: "str_of_nat n \<noteq> []"
  by (subst str_of_nat.simps) simp

lemma str_of_int_nonempty: "str_of_int i \<noteq> []"
  by (simp add: str_of_int_def str_of_nat_nonempty)

lemma join_nonempty: "xs \<noteq> [] \<Longrightarrow> hd xs \<noteq> [] \<Longrightarrow> join sep xs \<noteq> []"
  by (cases "(sep, xs)" rule: join.cases) auto

lemma generateSampleBiblicalText_nonempty:
  assumes "start_verse \<le> end_verse"
  shows "generateSampleBiblicalText book chapter start_verse end_verse translation \<noteq> []"
proof (cases "map_of sample_passages (book, chapter)")
  case None
  then show ?thesis by (simp add: generateSampleBiblicalText_def)
next
  case (Some verses)
  from assms have range: "[start_verse..end_verse] = start_verse # [start_verse + 1..end_verse]"
    by (rule upto_rec1)
  let ?line = "\<lambda>verse_num. case map_of verses verse_num of
                  Some verse \<Rightarrow> str_of_int verse_num @ '' '' @ verse
                | None \<Rightarrow> str_of_int verse_num @ '' [Verse text not available in demo]''"
  have "?line start_verse \<noteq> []"
    by (simp add: str_of_int_nonempty split: option.split)
  then have "join '' '' (map ?line [start_verse..end_verse]) \<noteq> []"
    unfolding range by (intro join_nonempty) simp_all
  with Some show ?thesis by (simp add: generateSampleBiblicalText_def)
qed

text \<open>
  C9. For every book, chapter, translation and verse range with
  \<open>start_verse \<le> end_verse\<close>, \<open>extractBiblicalPassage\<close> returns a candidate and not
  \<open>None\<close>: the sample text is never empty. The candidate carries that text, which is
  the fallback \<open><book> <chapter>:<range>\<close> when the sample table has no entry for the
  book and chapter, and a translation that is not known is replaced by ESV.
\<close>

theorem extractBiblicalPassage_total:
  assumes "start_verse \<le> end_verse"
  shows "\<exists>candidate.
           extractBiblicalPassage book chapter start_verse end_verse translation = Some candidate \<and>
           pc_text candidate \<noteq> [] \<and>
           md_translation (pc_metadata candidate) =
             Some (if translation \<in> set biblical_translations then translation else ''ESV'') \<and>
           (map_of sample_passages (book, chapter) = None \<longrightarrow>
              pc_text candidate =
                book @ '' '' @ str_of_int chapter @ '':'' @ str_of_int start_verse @
                (if start_verse \<noteq> end_verse then ''-'' @ str_of_int end_verse else []))"
proof -
  let ?translation = "if translation \<notin> set biblical_translations then ''ESV'' else translation"
  have "generateSampleBiblicalText book chapter start_verse end_verse ?translation \<noteq> []"
    using assms by (rule generateSampleBiblicalText_nonempty)
  then show ?thesis
    by (auto simp: extractBiblicalPassage_def Let_def no_metadata_def generateSampleBiblicalText_def)
qed

theorem extractBiblicalPassage_total_witness:
  "(2::int) \<le> 4 \<and> map_of sample_passages (''Exodus'', 3) = None \<and>
   (\<exists>candidate. extractBiblicalPassage ''Exodus'' 3 2 4 ''Vulgate'' = Some candidate \<and>
      pc_text candidate = ''Exodus 3:2-4'' \<and>
      md_translation (pc_metadata candidate) = Some ''ESV'')"
proof -
  have le: "(2::int) \<le> 4" by simp
  have absent: "map_of sample_passages (''Exodus'', 3) = None"
    by (simp add: sample_passages_def)
  have unknown: "''Vulgate'' \<notin> set biblical_translations"
    by (simp add: biblical_translations_def)
  have rendered: "''Exodus'' @ '' '' @ str_of_int 3 @ '':'' @ str_of_int 2 @
      (if (2::int) \<noteq> 4 then ''-'' @ str_of_int 4 else []) = ''Exodus 3:2-4''"
    by code_simp
  from extractBiblicalPassage_total [OF le, of "''Exodus''" 3 "''Vulgate''"] absent unknown rendered
  show ?thesis using le by auto
qed


subsection \<open>What the citation dictionaries leave out\<close>

lemma keep_str_nonempty: "keep_str v \<noteq> Some []"
  by (cases v) (simp_all add: keep_str_def truthy_str_def)

lemma keep_int_nonzero: "keep_int v \<noteq> Some 0"
  by (cases v) (simp_all add: keep_int_def truthy_int_def)

lemma to_dict_omits:
  "d_work (to_dict r) \<noteq> Some [] \<and> d_book (to_dict r) \<noteq> Some [] \<and>
   d_chapter (to_dict r) \<noteq> Some 0 \<and> d_start_verse (to_dict r) \<noteq> Some 0 \<and>
   d_end_verse (to_dict r) \<noteq> Some 0 \<and> d_start_line (to_dict r) \<noteq> Some 0 \<and>
   d_end_line (to_dict r) \<noteq> Some 0 \<and> d_act (to_dict r) \<noteq> Some [] \<and>
   d_scene (to_dict r) \<noteq> Some [] \<and> d_book_number (to_dict r) \<noteq> Some []"
  by (simp add: to_dict_def keep_str_nonempty keep_int_nonzero)

lemma parseCitation_Genesis_0_1:
  "parseCitation ''Genesis 0:1'' =
     \<lparr>pr_citations =
        [\<lparr>d_type = ''bible'', d_work = None, d_book = Some ''Genesis'', d_chapter = None,
          d_start_verse = Some 1, d_end_verse = Some 1, d_start_line = None, d_end_line = None,
          d_act = None, d_scene = None, d_book_number = None\<rparr>],
      pr_source_type = ''bible'', pr_original_text = ''Genesis 0:1''\<rparr>"
  by code_simp

text \<open>
  C10. For every input string, no citation dictionary returned by \<open>parseCitation\<close> has a
  key whose value is 0 or the empty string: such a field is left out. The citation
  \<open>Genesis 0:1\<close> is returned as one dictionary of type \<open>bible\<close> with the book and both
  verses and without the key \<open>chapter\<close>.
\<close>

theorem parseCitation_omits_zero_and_empty:
  "(\<forall>d \<in> set (pr_citations (parseCitation s)).
      d_work d \<noteq> Some [] \<and> d_book d \<noteq> Some [] \<and> d_chapter d \<noteq> Some 0 \<and>
      d_start_verse d \<noteq> Some 0 \<and> d_end_verse d \<noteq> Some 0 \<and> d_start_line d \<noteq> Some 0 \<and>
      d_end_line d \<noteq> Some 0 \<and> d_act d \<noteq> Some [] \<and> d_scene d \<noteq> Some [] \<and>
      d_book_number d \<noteq> Some []) \<and>
   parseCitation ''Genesis 0:1'' =
     \<lparr>pr_citations =
        [\<lparr>d_type = ''bible'', d_work = None, d_book = Some ''Genesis'', d_chapter = None,
          d_start_verse = Some 1, d_end_verse = Some 1, d_start_line = None, d_end_line = None,
          d_act = None, d_scene = None, d_book_number = None\<rparr>],
      pr_source_type = ''bible'', pr_original_text = ''Genesis 0:1''\<rparr>"
proof (rule conjI, rule ballI)
  fix d
  assume "d \<in> set (pr_citations (parseCitation s))"
  then obtain r where "d = to_dict r"
    by (auto simp: parseCitation_def Let_def)
  then show "d_work d \<noteq> Some [] \<and> d_book d \<noteq> Some [] \<and> d_chapter d \<noteq> Some 0 \<and>
      d_start_verse d \<noteq> Some 0 \<and> d_end_verse d \<noteq> Some 0 \<and> d_start_line d \<noteq> Some 0 \<and>
      d_end_line d \<noteq> Some 0 \<and> d_act d \<noteq> Some [] \<and> d_scene d \<noteq> Some [] \<and>
      d_book_number d \<noteq> Some []"
    using to_dict_omits [of r] by simp
next
  show "parseCitation ''Genesis 0:1'' =
     \<lparr>pr_citations =
        [\<lparr>d_type = ''bible'', d_work = None, d_book = Some ''Genesis'', d_chapter = None,
          d_start_verse = Some 1, d_end_verse = Some 1, d_start_line = None, d_end_line = None,
          d_act = None, d_scene = None, d_book_number = None\<rparr>],
      pr_source_type = ''bible'', pr_original_text = ''Genesis 0:1''\<rparr>"
    by (rule parseCitation_Genesis_0_1)
qed

theorem parseCitation_omits_zero_and_empty_witness:
  "map d_type (pr_citations (parseCitation ''Genesis 0:1'')) = [''bible''] \<and>
   map d_chapter (pr_citations (parseCitation ''Genesis 0:1'')) = [None] \<and>
   list_all (\<lambda>d. d_chapter d \<noteq> Some 0 \<and> d_book d \<noteq> Some [])
     (pr_citations (parseCitation ''Genesis 0:1''))"
  using parseCitation_omits_zero_and_empty [of "''Genesis 0:1''"]
  by (simp add: list_all_iff)


subsection \<open>What the parser emits\<close>

lemma parseBiblicalCitation_emits:
  "r \<in> set (parseBiblicalCitation s) \<Longrightarrow>
     cr_type r = ''bible'' \<and>
     (\<exists>raw b. normalizeBookNames raw = Some b \<and> b \<noteq> [] \<and> cr_book r = Some b) \<and>
     (\<exists>c v w. cr_chapter r = Some c \<and> cr_start_verse r = Some v \<and> cr_end_verse r = Some w \<and>
        0 \<le> c \<and> 0 \<le> v \<and> 0 \<le> w)"
proof (induction s rule: parseBiblicalCitation.induct)
  case (1 citation)
  show ?case
  proof (cases "CHR '';'' \<in> set citation")
    case True
    with "1.prems" obtain part where part: "part \<in> set (map strip (split CHR '';'' citation))"
      and r: "r \<in> set (parseBiblicalCitation part)"
      by (auto simp: parseBiblicalCitation.simps [of citation])
    from "1.IH" [OF True part r] show ?thesis .
  next
    case False
    show ?thesis
    proof (cases "re_match True bible_standard (strip citation)")
      case None
      with "1.prems" False show ?thesis
        by (simp add: parseBiblicalCitation.simps [of citation])
    next
      case (Some m)
      note m = this
      from "1.prems" False m
      have book: "truthy_str (normalizeBookNames (group_str m 1))"
        and r: "r = (blank ''bible'')\<lparr>cr_book := normalizeBookNames (group_str m 1),
            cr_chapter := Some (int_of_digits (group_str m 2)),
            cr_start_verse := Some (int_of_digits (group_str m 3)),
            cr_end_verse := Some (int_or (group m 4) (int_of_digits (group_str m 3)))\<rparr>"
        by (auto simp: parseBiblicalCitation.simps [of citation] Let_def split: if_splits)
      from book obtain b where b: "normalizeBookNames (group_str m 1) = Some b" "b \<noteq> []"
        by (auto simp: truthy_str_def split: option.splits)
      have c: "0 \<le> int_of_digits (group_str m 2)"
        using bible_standard_sets(2) bible_standard_digit(1) m by (rule group_str_nonneg)
      have v: "0 \<le> int_of_digits (group_str m 3)"
        using bible_standard_sets(3) bible_standard_digit(2) m by (rule group_str_nonneg)
      have w: "0 \<le> int_or (group m 4) (int_of_digits (group_str m 3))"
        using bible_standard_digit(3) m v by (rule int_or_nonneg)
      from r b c v w show ?thesis by (auto simp: blank_def)
    qed
  qed
qed

lemma parseLiteraryCitation_emits:
  assumes "r \<in> set (parseLiteraryCitation s)"
  shows "cr_type r = ''literature'' \<and>
     (\<exists>a b. cr_start_line r = Some a \<and> cr_end_line r = Some b \<and> 0 \<le> a \<and> 0 \<le> b)"
proof (cases "re_match True literature_drama s")
  case (Some m)
  have a: "0 \<le> int_of_digits (group_str m 4)"
    using literature_drama_groups(4,5) Some by (rule group_str_nonneg)
  have b: "0 \<le> int_or (group m 5) (int_of_digits (group_str m 4))"
    using literature_drama_groups(6) Some a by (rule int_or_nonneg)
  from assms Some a b show ?thesis
    by (simp add: parseLiteraryCitation_def Let_def blank_def)
next
  case None
  note no_drama = this
  show ?thesis
  proof (cases "re_match True literature_book s")
    case (Some m)
    have a: "0 \<le> int_of_digits (group_str m 3)"
      using literature_book_groups(3,4) Some by (rule group_str_nonneg)
    have b: "0 \<le> int_or (group m 4) (int_of_digits (group_str m 3))"
      using literature_book_groups(5) Some a by (rule int_or_nonneg)
    from assms no_drama Some a b show ?thesis
      by (simp add: parseLiteraryCitation_def Let_def blank_def)
  next
    case None
    note no_book = this
    show ?thesis
    proof (cases "re_match True literature_simple s")
      case (Some m)
      have a: "0 \<le> int_of_digits (group_str m 2)"
        using literature_simple_groups(2,3) Some by (rule group_str_nonneg)
      have b: "0 \<le> int_or (group m 3) (int_of_digits (group_str m 2))"
        using literature_simple_groups(4) Some a by (rule int_or_nonneg)
      from assms no_drama no_book Some a b show ?thesis
        by (simp add: parseLiteraryCitation_def Let_def blank_def)
    next
      case None
      with assms no_drama no_book show ?thesis
        by (simp add: parseLiteraryCitation_def)
    qed
  qed
qed

lemma parseCitation_sources:
  assumes "d \<in> set (pr_citations (parseCitation s))"
  shows "\<exists>r t. d = to_dict r \<and>
           (r \<in> set (parseBiblicalCitation t) \<or> r \<in> set (parseLiteraryCitation t))"
  using assms
  by (auto simp: parseCitation_def Let_def parseMixedCitation_def
      split: if_splits option.splits)

lemma parseBiblicalCitation_Genesis_1_5_3:
  "parseBiblicalCitation ''Genesis 1:5-3'' =
     [\<lparr>cr_type = ''bible'', cr_work = None, cr_book = Some ''Genesis'', cr_chapter = Some 1,
       cr_start_verse = Some 5, cr_end_verse = Some 3, cr_start_line = None, cr_end_line = None,
       cr_act = None, cr_scene = None, cr_book_number = None\<rparr>]"
  by code_simp

lemma parseCitation_Genesis_1_5_3:
  "parseCitation ''Genesis 1:5-3'' =
     \<lparr>pr_citations =
        [\<lparr>d_type = ''bible'', d_work = None, d_book = Some ''Genesis'', d_chapter = Some 1,
          d_start_verse = Some 5, d_end_verse = Some 3, d_start_line = None, d_end_line = None,
          d_act = None, d_scene = None, d_book_number = None\<rparr>],
      pr_source_type = ''bible'', pr_original_text = ''Genesis 1:5-3''\<rparr>"
  by code_simp

lemma parseLiteraryCitation_Hamlet:
  "parseLiteraryCitation ''Hamlet Act 3 Scene 1, 56-88'' =
     [\<lparr>cr_type = ''literature'', cr_work = Some ''Hamlet'', cr_book = None, cr_chapter = None,
       cr_start_verse = None, cr_end_verse = None, cr_start_line = Some 56, cr_end_line = Some 88,
       cr_act = Some ''3'', cr_scene = Some ''1'', cr_book_number = None\<rparr>]"
  by code_simp

text \<open>
  C1, as the code has it. For every input string, a reference emitted by the parser
  has numeric fields that are integers not below 0, read from the digits of the
  citation, and a Bible reference has a book name that the normalizer resolved (and
  that is not empty); every dictionary of \<open>parseCitation\<close> is such a reference. The
  parser makes no check that a number is positive or that the end of a range is not
  below its start.
\<close>

theorem parser_emits_resolved_nonnegative:
  "(\<forall>r \<in> set (parseBiblicalCitation s).
      cr_type r = ''bible'' \<and>
      (\<exists>raw b. normalizeBookNames raw = Some b \<and> b \<noteq> [] \<and> cr_book r = Some b) \<and>
      (\<exists>c v w. cr_chapter r = Some c \<and> cr_start_verse r = Some v \<and> cr_end_verse r = Some w \<and>
         0 \<le> c \<and> 0 \<le> v \<and> 0 \<le> w)) \<and>
   (\<forall>r \<in> set (parseLiteraryCitation s).
      cr_type r = ''literature'' \<and>
      (\<exists>a b. cr_start_line r = Some a \<and> cr_end_line r = Some b \<and> 0 \<le> a \<and> 0 \<le> b)) \<and>
   (\<forall>d \<in> set (pr_citations (parseCitation s)).
      \<exists>r t. d = to_dict r \<and>
        (r \<in> set (parseBiblicalCitation t) \<or> r \<in> set (parseLiteraryCitation t)))"
  using parseBiblicalCitation_emits [of _ s] parseLiteraryCitation_emits [of _ s]
    parseCitation_sources [of _ s]
  by blast

theorem parser_emits_resolved_nonnegative_witness:
  "parseBiblicalCitation ''Genesis 1:5-3'' \<noteq> [] \<and>
   list_all (\<lambda>r. cr_type r = ''bible'' \<and>
               (\<exists>raw b. normalizeBookNames raw = Some b \<and> b \<noteq> [] \<and> cr_book r = Some b) \<and>
               cr_start_verse r = Some 5 \<and> cr_end_verse r = Some 3)
     (parseBiblicalCitation ''Genesis 1:5-3'') \<and>
   parseLiteraryCitation ''Hamlet Act 3 Scene 1, 56-88'' \<noteq> [] \<and>
   list_all (\<lambda>r. cr_type r = ''literature'' \<and>
               (\<exists>a b. cr_start_line r = Some a \<and> cr_end_line r = Some b \<and> 0 \<le> a \<and> 0 \<le> b))
     (parseLiteraryCitation ''Hamlet Act 3 Scene 1, 56-88'') \<and>
   pr_citations (parseCitation ''Genesis 1:5-3'') \<noteq> [] \<and>
   list_all (\<lambda>d. \<exists>r t. d = to_dict r \<and>
               (r \<in> set (parseBiblicalCitation t) \<or> r \<in> set (parseLiteraryCitation t)))
     (pr_citations (parseCitation ''Genesis 1:5-3''))"
proof -
  have bible: "parseBiblicalCitation ''Genesis 1:5-3'' \<noteq> [] \<and>
      list_all (\<lambda>r. cr_start_verse r = Some 5 \<and> cr_end_verse r = Some 3)
        (parseBiblicalCitation ''Genesis 1:5-3'')"
    by (simp add: parseBiblicalCitation_Genesis_1_5_3)
  have literature: "parseLiteraryCitation ''Hamlet Act 3 Scene 1, 56-88'' \<noteq> []"
    by (simp add: parseLiteraryCitation_Hamlet)
  have dicts: "pr_citations (parseCitation ''Genesis 1:5-3'') \<noteq> []"
    by (simp add: parseCitation_Genesis_1_5_3)
  from parser_emits_resolved_nonnegative [of "''Genesis 1:5-3''"]
    parser_emits_resolved_nonnegative [of "''Hamlet Act 3 Scene 1, 56-88''"]
    bible literature dicts
  show ?thesis unfolding list_all_iff by blast
qed

text \<open>
  C1, as the specification states it, fails: the capture \<open>Genesis 1:5-3\<close>, whose range
  ends below its start, yields a reference, and \<open>Genesis 0:1\<close>, whose chapter is not
  positive, yields one too (its dictionary has lost the chapter).
\<close>

theorem parser_emits_invalid_numbers:
  "parseBiblicalCitation ''Genesis 1:5-3'' =
     [\<lparr>cr_type = ''bible'', cr_work = None, cr_book = Some ''Genesis'', cr_chapter = Some 1,
       cr_start_verse = Some 5, cr_end_verse = Some 3, cr_start_line = None, cr_end_line = None,
       cr_act = None, cr_scene = None, cr_book_number = None\<rparr>] \<and>
   parseCitation ''Genesis 1:5-3'' =
     \<lparr>pr_citations =
        [\<lparr>d_type = ''bible'', d_work = None, d_book = Some ''Genesis'', d_chapter = Some 1,
          d_start_verse = Some 5, d_end_verse = Some 3, d_start_line = None, d_end_line = None,
          d_act = None, d_scene = None, d_book_number = None\<rparr>],
      pr_source_type = ''bible'', pr_original_text = ''Genesis 1:5-3''\<rparr> \<and>
   pr_citations (parseCitation ''Genesis 0:1'') \<noteq> []"
  by (simp add: parseBiblicalCitation_Genesis_1_5_3 parseCitation_Genesis_1_5_3
      parseCitation_Genesis_0_1)

subsection \<open>The end-to-end call on a chapter 0\<close>

text \<open>
  C2. \<open>extractPassageFromCitation\<close> does not return for the citation \<open>Genesis 0:1\<close>: the
  parser's dictionary has no key \<open>chapter\<close>, since 0 counts as false, and
  \<open>generatePassageCandidates\<close> reads that key with \<open>[]\<close>. This holds for every index
  of works and every similarity function.
\<close>

theorem extractPassageFromCitation_raises_KeyError:
  "extractPassageFromCitation sim eng ''Genesis 0:1'' = Inl (KeyError ''chapter'')"
  by (simp add: extractPassageFromCitation_def generatePassageCandidates_def
      parseCitation_Genesis_0_1 getitem_def)


subsection \<open>The confidence score\<close>

lemma match_at_Cls:
  "match_at ic (Cls rs) s i \<noteq> None \<longleftrightarrow> i < length s \<and> cls_match ic rs (s ! i)"
  by (simp add: match_at_def)

lemma search_from_Cls:
  "search_from ic (Cls rs) s i k \<noteq> None \<longleftrightarrow>
     (\<exists>j. i \<le> j \<and> j \<le> i + k \<and> j < length s \<and> cls_match ic rs (s ! j))"
proof (induction k arbitrary: i)
  case 0
  show ?case using match_at_Cls [of ic rs s i] by auto
next
  case (Suc k)
  show ?case
  proof (cases "match_at ic (Cls rs) s i")
    case None
    with match_at_Cls [of ic rs s i] have here: "\<not> (i < length s \<and> cls_match ic rs (s ! i))"
      by simp
    have "(\<exists>j. Suc i \<le> j \<and> j \<le> Suc i + k \<and> j < length s \<and> cls_match ic rs (s ! j)) \<longleftrightarrow>
          (\<exists>j. i \<le> j \<and> j \<le> i + Suc k \<and> j < length s \<and> cls_match ic rs (s ! j))"
      using here by (metis Suc_leD Suc_le_eq add_Suc add_Suc_right le_neq_implies_less)
    with None Suc.IH [of "Suc i"] show ?thesis by simp
  next
    case (Some m)
    with match_at_Cls [of ic rs s i] have "i < length s \<and> cls_match ic rs (s ! i)" by simp
    then have "\<exists>j. i \<le> j \<and> j \<le> i + Suc k \<and> j < length s \<and> cls_match ic rs (s ! j)"
      by (intro exI [of _ i]) simp
    with Some show ?thesis by simp
  qed
qed

lemma re_search_Cls:
  "re_search ic (Cls rs) s \<noteq> None \<longleftrightarrow> list_ex (cls_match ic rs) s"
  unfolding re_search_def search_from_Cls list_ex_length by (auto intro: less_imp_le)

lemma code_eq_iff: "code c = code d \<longleftrightarrow> c = d"
  by (simp add: code_def)

lemma terminal_punctuation_chars:
  "cls_match False [(CHR ''.'', CHR ''.''), (CHR ''!'', CHR ''!''), (CHR ''?'', CHR ''?'')] c \<longleftrightarrow>
     c \<in> set ''.!?''"
proof -
  have "code a \<le> code c \<and> code c \<le> code a \<longleftrightarrow> c = a" for a
    using code_eq_iff [of c a] by auto
  then show ?thesis
    by (auto simp: cls_match_def in_ranges_def)
qed

lemma has_terminal_punctuation:
  "re_search False terminal_punctuation text \<noteq> None \<longleftrightarrow> list_ex (\<lambda>c. c \<in> set ''.!?'') text"
  unfolding terminal_punctuation_def re_search_Cls terminal_punctuation_chars ..

lemma calculateTextQuality_nonempty:
  "text \<noteq> [] \<Longrightarrow> calculateTextQuality text = spec_textQuality text"
  using has_terminal_punctuation [of "text"]
  by (simp add: calculateTextQuality_def spec_textQuality_def)

lemma weighted_sum:
  "calculateConfidenceScore candidate original_citation =
     min 1 (max 0
       ((pc_confidence candidate +
         (0.30 * calculateTextQuality (pc_text candidate) +
          0.20 * getSourceReliability (pc_source candidate) +
          0.20 * getMetadataCompleteness (pc_metadata candidate) +
          0.30 * getCitationMatchScore candidate original_citation)) / 2))"
  by (simp add: calculateConfidenceScore_def Let_def algebra_simps)

lemma score_empty_candidate:
  "calculateConfidenceScore empty_candidate [] = 47 / 200" "spec_score empty_candidate [] = 133 / 400"
  "calculateTextQuality [] = 0" "spec_textQuality [] = 13 / 20"
  by code_simp+

lemma score_short_candidate:
  "calculateConfidenceScore short_candidate [] = 4789 / 8000"
  by code_simp

text \<open>
  C7, as the code has it. For every candidate with a text that is not empty and every
  original citation, the score is the clamp to \<open>[0, 1]\<close> of the average of the prior
  confidence and \<open>0.30 * textQuality + 0.20 * sourceReliability +
  0.20 * metadataCompleteness + 0.30 * citationMatch\<close>, where \<open>textQuality\<close> is the average
  of the four indicators. For the empty text, \<open>textQuality\<close> is 0 and not that average.
  The score is between 0 and 1 in both cases.
\<close>

theorem calculateConfidenceScore_formula:
  "(pc_text candidate \<noteq> [] \<longrightarrow>
      calculateConfidenceScore candidate original_citation = spec_score candidate original_citation) \<and>
   (pc_text candidate = [] \<longrightarrow>
      calculateTextQuality (pc_text candidate) = 0 \<and>
      calculateConfidenceScore candidate original_citation =
        min 1 (max 0
          ((pc_confidence candidate +
            (0.20 * getSourceReliability (pc_source candidate) +
             0.20 * getMetadataCompleteness (pc_metadata candidate) +
             0.30 * getCitationMatchScore candidate original_citation)) / 2))) \<and>
   0 \<le> calculateConfidenceScore candidate original_citation \<and>
   calculateConfidenceScore candidate original_citation \<le> 1"
proof (intro conjI impI)
  assume "pc_text candidate \<noteq> []"
  then show "calculateConfidenceScore candidate original_citation = spec_score candidate original_citation"
    by (simp add: weighted_sum spec_score_def calculateTextQuality_nonempty)
next
  assume empty: "pc_text candidate = []"
  then show "calculateTextQuality (pc_text candidate) = 0"
    by (simp add: calculateTextQuality_def)
  with empty show "calculateConfidenceScore candidate original_citation =
        min 1 (max 0
          ((pc_confidence candidate +
            (0.20 * getSourceReliability (pc_source candidate) +
             0.20 * getMetadataCompleteness (pc_metadata candidate) +
             0.30 * getCitationMatchScore candidate original_citation)) / 2))"
    by (simp add: weighted_sum)
next
  show "0 \<le> calculateConfidenceScore candidate original_citation"
    by (simp add: weighted_sum)
  show "calculateConfidenceScore candidate original_citation \<le> 1"
    by (simp add: weighted_sum)
qed

theorem calculateConfidenceScore_formula_witness:
  "pc_text short_candidate \<noteq> [] \<and>
   calculateConfidenceScore short_candidate [] = spec_score short_candidate [] \<and>
   spec_score short_candidate [] = 4789 / 8000 \<and>
   pc_text empty_candidate = [] \<and>
   calculateConfidenceScore empty_candidate [] = 47 / 200"
proof -
  have short: "pc_text short_candidate \<noteq> []" by (simp add: short_candidate_def)
  have empty: "pc_text empty_candidate = []" by (simp add: empty_candidate_def)
  from calculateConfidenceScore_formula [of short_candidate "[]"] short
  have "calculateConfidenceScore short_candidate [] = spec_score short_candidate []" by blast
  with short empty score_short_candidate score_empty_candidate(1) show ?thesis by simp
qed

text \<open>
  C7, as the specification states it, fails on the empty text: the average of the
  four indicators is 0.65 there (0 for the length, 1 for completeness, 0.6 for
  readability, 1 for cleanliness), and \<open>_calculateTextQuality\<close> returns 0; for a
  candidate without text the two scores are 0.235 and 0.3325.
\<close>

theorem textQuality_of_empty_text:
  "calculateTextQuality [] = 0 \<and> spec_textQuality [] = 13 / 20 \<and>
   calculateConfidenceScore empty_candidate [] = 47 / 200 \<and>
   spec_score empty_candidate [] = 133 / 400"
  by (simp add: score_empty_candidate)

end
